theory Spec2Isabelle
  imports Complex_Main "HOL-Library.Sublist" "HOL-Library.Log_Nat"
begin

section \<open>JavaScript values\<close>

text \<open>
  The fee service of \<^verbatim>\<open>src/api/vaults/getVaultFees.ts\<close> computes with JavaScript
  numbers. A number is modelled as a rational, the two infinities or NaN: division by
  zero, arithmetic on \<^verbatim>\<open>undefined\<close> and comparisons with NaN behave as in
  JavaScript, and every zero is \<open>+0\<close>. The operators \<open>+\<close>, \<open>-\<close>, \<open>*\<close> and \<open>/\<close>
  below give the exact result; \<open>toDouble\<close> rounds an exact result to the nearest double.
  The fee classifier is modelled with the exact operators. The fee batch registry rounds
  every result, since what it stores depends on the rounding.
\<close>

datatype jsnum = Fin rat | PInf | NInf | NaN

fun jneg :: "jsnum \<Rightarrow> jsnum" where
  "jneg (Fin a) = Fin (- a)"
| "jneg PInf = NInf"
| "jneg NInf = PInf"
| "jneg NaN = NaN"

fun times_inf :: "bool \<Rightarrow> jsnum \<Rightarrow> jsnum" where
  "times_inf pos NaN = NaN"
| "times_inf pos (Fin b) = (if b = 0 then NaN else if (0 < b) = pos then PInf else NInf)"
| "times_inf pos PInf = (if pos then PInf else NInf)"
| "times_inf pos NInf = (if pos then NInf else PInf)"

instantiation jsnum :: "{plus, minus, times, inverse}"
begin

fun plus_jsnum :: "jsnum \<Rightarrow> jsnum \<Rightarrow> jsnum" where
  "plus_jsnum NaN y = NaN"
| "plus_jsnum x NaN = NaN"
| "plus_jsnum (Fin a) (Fin b) = Fin (a + b)"
| "plus_jsnum PInf NInf = NaN"
| "plus_jsnum NInf PInf = NaN"
| "plus_jsnum PInf y = PInf"
| "plus_jsnum x PInf = PInf"
| "plus_jsnum NInf y = NInf"
| "plus_jsnum x NInf = NInf"

definition minus_jsnum :: "jsnum \<Rightarrow> jsnum \<Rightarrow> jsnum" where
  "minus_jsnum x y = x + jneg y"

fun times_jsnum :: "jsnum \<Rightarrow> jsnum \<Rightarrow> jsnum" where
  "times_jsnum NaN y = NaN"
| "times_jsnum x NaN = NaN"
| "times_jsnum (Fin a) (Fin b) = Fin (a * b)"
| "times_jsnum PInf y = times_inf True y"
| "times_jsnum NInf y = times_inf False y"
| "times_jsnum x PInf = times_inf True x"
| "times_jsnum x NInf = times_inf False x"

fun divide_jsnum :: "jsnum \<Rightarrow> jsnum \<Rightarrow> jsnum" where
  "divide_jsnum NaN y = NaN"
| "divide_jsnum x NaN = NaN"
| "divide_jsnum (Fin a) (Fin b) =
     (if b = 0 then (if a = 0 then NaN else if 0 < a then PInf else NInf) else Fin (a / b))"
| "divide_jsnum (Fin a) y = Fin 0"
| "divide_jsnum PInf (Fin b) = (if 0 \<le> b then PInf else NInf)"
| "divide_jsnum NInf (Fin b) = (if 0 \<le> b then NInf else PInf)"
| "divide_jsnum x y = NaN"

definition inverse_jsnum :: "jsnum \<Rightarrow> jsnum" where
  "inverse_jsnum x = divide (Fin 1) x"

instance ..

end

text \<open>
  A value read from an optional field is \<^verbatim>\<open>undefined\<close>, \<^verbatim>\<open>null\<close> or a number.
  The arithmetic operators convert their operands with ToNumber first, so their result is
  always a number.
\<close>

datatype jsval = Undefined | Null | Number jsnum

abbreviation num :: "rat \<Rightarrow> jsval" where
  "num r \<equiv> Number (Fin r)"

fun toNumber :: "jsval \<Rightarrow> jsnum" where
  "toNumber Undefined = NaN"
| "toNumber Null = Fin 0"
| "toNumber (Number n) = n"

instantiation jsval :: "{plus, minus, times, inverse}"
begin

definition plus_jsval :: "jsval \<Rightarrow> jsval \<Rightarrow> jsval" where
  "plus_jsval x y = Number (toNumber x + toNumber y)"

definition minus_jsval :: "jsval \<Rightarrow> jsval \<Rightarrow> jsval" where
  "minus_jsval x y = Number (toNumber x - toNumber y)"

definition times_jsval :: "jsval \<Rightarrow> jsval \<Rightarrow> jsval" where
  "times_jsval x y = Number (toNumber x * toNumber y)"

definition divide_jsval :: "jsval \<Rightarrow> jsval \<Rightarrow> jsval" where
  "divide_jsval x y = Number (toNumber x / toNumber y)"

definition inverse_jsval :: "jsval \<Rightarrow> jsval" where
  "inverse_jsval x = Number (inverse (toNumber x))"

instance ..

end

text \<open>\<^verbatim>\<open>a === b\<close> on such values: NaN is equal to nothing, itself included.\<close>

fun strictEq :: "jsval \<Rightarrow> jsval \<Rightarrow> bool" where
  "strictEq Undefined Undefined = True"
| "strictEq Null Null = True"
| "strictEq (Number a) (Number b) = (a = b \<and> a \<noteq> NaN)"
| "strictEq x y = False"

text \<open>The global \<^verbatim>\<open>isNaN(x)\<close> and the operator \<^verbatim>\<open>a ?? b\<close>.\<close>

definition isNaN :: "jsval \<Rightarrow> bool" where
  "isNaN x = (toNumber x = NaN)"

definition nullish :: "jsval \<Rightarrow> jsval \<Rightarrow> jsval" where
  "nullish a b = (if a = Undefined \<or> a = Null then b else a)"

subsection \<open>Rounding to a double\<close>

text \<open>
  A double has a significand of 53 bits and an exponent between -1022 and 1023.
  \<open>exponentOf v\<close> is the integer \<open>e\<close> with \<open>2^e \<le> v < 2^(e+1)\<close> for a positive \<open>v\<close>;
  \<open>roundFinite\<close> rounds to the nearest multiple of the unit in the last place, ties to the
  even significand; \<open>roundDouble\<close> adds the overflow to an infinity. \<open>isDouble v\<close> says that
  \<open>v\<close> is a significand below \<open>2^53\<close> times a power of two.
\<close>

definition roundHalfEven :: "rat \<Rightarrow> int" where
  "roundHalfEven q =
     (let f = \<lfloor>q\<rfloor>; r = q - of_int f
      in if r < 1 / 2 then f else if 1 / 2 < r then f + 1 else if even f then f else f + 1)"

definition exponentOf :: "rat \<Rightarrow> int" where
  "exponentOf v = (if 1 \<le> v then bitlen \<lfloor>v\<rfloor> - 1 else - bitlen (\<lceil>1 / v\<rceil> - 1))"

definition roundFinite :: "rat \<Rightarrow> rat" where
  "roundFinite v =
     (if v = 0 then 0
      else (let e = max (exponentOf \<bar>v\<bar>) (- 1022); ulp = 2 powi (e - 52)
            in of_int (roundHalfEven (v / ulp)) * ulp))"

definition isDouble :: "rat \<Rightarrow> bool" where
  "isDouble v = (\<exists>m k. v = of_int m * 2 powi k \<and> \<bar>m\<bar> < 2 ^ 53 \<and> - 1074 \<le> k)"

definition roundDouble :: "rat \<Rightarrow> jsnum" where
  "roundDouble v =
     (let r = roundFinite v
      in if 2 ^ 1024 \<le> \<bar>r\<bar> then (if 0 < r then PInf else NInf) else Fin r)"

fun toDouble :: "jsval \<Rightarrow> jsval" where
  "toDouble (Number (Fin r)) = Number (roundDouble r)"
| "toDouble x = x"

subsection \<open>Strings\<close>

text \<open>
  \<^verbatim>\<open>s.toLowerCase()\<close> on the ASCII letters (strategy addresses are hexadecimal), and
  \<^verbatim>\<open>s.includes(sub)\<close>, which looks for \<open>sub\<close> as a contiguous part of \<open>s\<close>.
\<close>

definition toLowerChar :: "char \<Rightarrow> char" where
  "toLowerChar c =
     (case map_of (zip ''ABCDEFGHIJKLMNOPQRSTUVWXYZ'' ''abcdefghijklmnopqrstuvwxyz'') c of
        Some l \<Rightarrow> l | None \<Rightarrow> c)"

definition toLowerCase :: "string \<Rightarrow> string" where
  "toLowerCase s = map toLowerChar s"

fun includes_str :: "string \<Rightarrow> string \<Rightarrow> bool" where
  "includes_str [] sub = (sub = [])"
| "includes_str (x # xs) sub = (prefix sub (x # xs) \<or> includes_str xs sub)"

section \<open>Data model\<close>

text \<open>
  The interfaces of the source. Fields that share a name across interfaces carry a suffix:
  \<open>_fee\<close> in \<open>PerformanceFee\<close>, \<open>_raw\<close> in the decoded contract structs. A
  \<^verbatim>\<open>BigNumber\<close> built from the hexadecimal encoding of a \<^verbatim>\<open>uint256\<close> is a natural
  number. An optional numeric field holds \<open>Undefined\<close> when the accessor did not respond.
\<close>

type_synonym BigNumber = nat

record PerformanceFee =
  total_fee :: jsval
  call_fee :: jsval
  strategist_fee :: jsval
  treasury_fee :: jsval
  stakers_fee :: jsval

record VaultFeeBreakdown =
  performance :: PerformanceFee
  withdraw_fee :: jsval
  deposit :: "jsval option"
  lastUpdated :: nat

record FeeBatchDetail =
  address :: string
  treasurySplit :: jsval
  stakerSplit :: jsval

record PerformanceFeeCallResponse =
  total_raw :: BigNumber
  beefy_raw :: BigNumber
  strategist_raw :: BigNumber
  call_raw :: BigNumber

record AllFeesResponse =
  performance_raw :: PerformanceFeeCallResponse
  withdraw_raw :: BigNumber
  deposit_raw :: BigNumber

record StrategyCallResponse =
  id' :: string
  strategy :: string
  strategist :: jsval
  strategist2 :: jsval
  call :: jsval
  call2 :: jsval
  call3 :: jsval
  call4 :: jsval
  maxCallFee :: jsval
  beefy :: jsval
  fee :: jsval
  treasury :: jsval
  rewards :: jsval
  rewards2 :: jsval
  breakdown :: "PerformanceFeeCallResponse option"
  allFees :: "AllFeesResponse option"
  maxFee :: jsval
  maxFee2 :: jsval
  maxFee3 :: jsval
  withdraw :: jsval
  withdraw2 :: jsval
  withdrawMax :: jsval
  withdrawMax2 :: jsval
  paused :: "bool option"

text \<open>
  Reading a property of an \<^verbatim>\<open>undefined\<close> fee batch throws a TypeError; the caller
  passes \<^verbatim>\<open>feeBatches[chain]\<close>, which is undefined for a chain whose split was never
  stored.
\<close>

datatype error = TypeError

definition readFeeBatch :: "FeeBatchDetail option \<Rightarrow> (FeeBatchDetail \<Rightarrow> 'a) \<Rightarrow> error + 'a" where
  "readFeeBatch feeBatch f = (case feeBatch of None \<Rightarrow> Inl TypeError | Some fb \<Rightarrow> Inr (f fb))"

text \<open>\<^verbatim>\<open>x.toNumber()\<close> and \<^verbatim>\<open>x.div(1e9).toNumber()\<close> of a BigNumber.\<close>

definition bnToNumber :: "BigNumber \<Rightarrow> jsval" where
  "bnToNumber n = num (of_nat n)"

definition bnDiv1e9ToNumber :: "BigNumber \<Rightarrow> jsval" where
  "bnDiv1e9ToNumber n = num (of_nat n / 1000000000)"

section \<open>Deposit and withdrawal fee\<close>

definition depositFeeFromCalls :: "StrategyCallResponse \<Rightarrow> jsval" where
  "depositFeeFromCalls contractCalls =
     (case allFees contractCalls of
        Some a \<Rightarrow> bnToNumber (deposit_raw a) / num 10000
      | None \<Rightarrow> Null)"

definition withdrawalFeeFromCalls :: "StrategyCallResponse \<Rightarrow> jsval" where
  "withdrawalFeeFromCalls contractCalls =
     (case allFees contractCalls of
        Some a \<Rightarrow> bnToNumber (withdraw_raw a) / num 10000
      | None \<Rightarrow>
          if (withdraw contractCalls = Undefined \<and> withdraw2 contractCalls = Undefined) \<or>
             (withdrawMax contractCalls = Undefined \<and> withdrawMax2 contractCalls = Undefined) \<or>
             paused contractCalls = Some True
          then num 0
          else
            (let withdrawFee = nullish (withdraw contractCalls) (withdraw2 contractCalls);
                 maxWithdrawFee = nullish (withdrawMax contractCalls) (withdrawMax2 contractCalls)
             in withdrawFee / maxWithdrawFee))"

section \<open>Performance fee\<close>

definition performanceFromGetFees ::
  "PerformanceFeeCallResponse \<Rightarrow> FeeBatchDetail option \<Rightarrow> error + PerformanceFee" where
  "performanceFromGetFees fees feeBatch =
     (let total = bnDiv1e9ToNumber (total_raw fees) / num 1000000000;
          beefy = bnDiv1e9ToNumber (beefy_raw fees) / num 1000000000;
          call = bnDiv1e9ToNumber (call_raw fees) / num 1000000000;
          strategist = bnDiv1e9ToNumber (strategist_raw fees) / num 1000000000;
          feeSum = beefy + call + strategist;
          beefySplit = (total * beefy) / feeSum
      in readFeeBatch feeBatch (\<lambda>fb.
           \<lparr> total_fee = total,
             call_fee = (total * call) / feeSum,
             strategist_fee = (total * strategist) / feeSum,
             treasury_fee = treasurySplit fb * beefySplit,
             stakers_fee = stakerSplit fb * beefySplit \<rparr>))"

definition performanceForMaxi :: "StrategyCallResponse \<Rightarrow> PerformanceFee" where
  "performanceForMaxi contractCalls =
     (let callFee = nullish (nullish (nullish (call contractCalls) (call2 contractCalls))
                       (call3 contractCalls)) (call4 contractCalls);
          maxCallFee = nullish (maxCallFee contractCalls) (num 1000);
          maxFee = nullish (nullish (maxFee contractCalls) (maxFee2 contractCalls))
                     (maxFee3 contractCalls);
          rewards = nullish (rewards contractCalls) (rewards2 contractCalls);
          strategyAddress = toLowerCase (strategy contractCalls)
      in
      if strategyAddress \<in> set
           [toLowerCase ''0x436D5127F16fAC1F021733dda090b5E6DE30b3bB'',
            toLowerCase ''0xa9E6E271b27b20F65394914f8784B3B860dBd259'']
      then
        \<lparr> total_fee = callFee / num 1000,
          call_fee = callFee / num 1000,
          strategist_fee = num 0,
          treasury_fee = num 0,
          stakers_fee = num 0 \<rparr>
      else if strategyAddress \<in> set (map toLowerCase
           [''0x24AAaB9DA14308bAf9d670e2a37369FE8Cb5Fe36'',
            ''0x22b3d90BDdC3Ad5F2948bE3914255C64Ebc8c9b3'',
            ''0xbCF1e02ac0c45729dC85F290C4A6AB35c4801cB1'',
            ''0xb25eB9105549627050AAB3A1c909fBD454014beA''])
      then
        \<lparr> total_fee = ((num 45 / num 1000) * callFee) / maxFee,
          call_fee = ((num 45 / num 1000) * callFee) / maxFee,
          strategist_fee = num 0,
          treasury_fee = num 0,
          stakers_fee = num 0 \<rparr>
      else if toLowerCase ''0xca077eEC87e2621F5B09AFE47C42BAF88c6Af18c'' = strategyAddress
      then
        \<lparr> total_fee = num 5 / num 1000,
          call_fee = num 5 / num 1000,
          strategist_fee = num 0,
          treasury_fee = num 0,
          stakers_fee = num 0 \<rparr>
      else if toLowerCase ''0x87056F5E8Dce0fD71605E6E291C6a3B53cbc3818'' = strategyAddress
      then
        \<lparr> total_fee = (callFee + rewards) / maxFee,
          call_fee = callFee / maxFee,
          strategist_fee = num 0,
          treasury_fee = num 0,
          stakers_fee = rewards / maxFee \<rparr>
      else
        \<lparr> total_fee = callFee / maxCallFee,
          call_fee = callFee / maxCallFee,
          strategist_fee = num 0,
          treasury_fee = num 0,
          stakers_fee = num 0 \<rparr>)"

text \<open>
  The legacy mapping returns \<^verbatim>\<open>undefined\<close> (\<open>None\<close>) when no branch applies. A branch
  that splits the beefy fee reads the fee batch and throws when there is none.
\<close>

definition legacyFeeMappings ::
  "StrategyCallResponse \<Rightarrow> FeeBatchDetail option \<Rightarrow> error + PerformanceFee option" where
  "legacyFeeMappings contractCalls feeBatch =
     (let total = num (45 / 1000);
          callFee = nullish (nullish (nullish (call contractCalls) (call2 contractCalls))
                       (call3 contractCalls)) (call4 contractCalls);
          strategistFee = nullish (strategist contractCalls) (strategist2 contractCalls);
          maxFee = nullish (nullish (maxFee contractCalls) (maxFee2 contractCalls))
                     (maxFee3 contractCalls);
          beefyFee = beefy contractCalls;
          fee = fee contractCalls;
          treasury = treasury contractCalls;
          rewards = nullish (rewards contractCalls) (rewards2 contractCalls)
      in
      if strictEq (callFee + strategistFee + beefyFee) maxFee then
        readFeeBatch feeBatch (\<lambda>fb. Some
          \<lparr> total_fee = total,
            call_fee = (total * callFee) / maxFee,
            strategist_fee = (total * strategistFee) / maxFee,
            treasury_fee = (total * treasurySplit fb * beefyFee) / maxFee,
            stakers_fee = (total * stakerSplit fb * beefyFee) / maxFee \<rparr>)
      else if strictEq (callFee + strategistFee + rewards + treasury) maxFee then
        Inr (Some
          \<lparr> total_fee = total,
            call_fee = (total * callFee) / maxFee,
            strategist_fee = (total * strategistFee) / maxFee,
            treasury_fee = (total * treasury) / maxFee,
            stakers_fee = (total * rewards) / maxFee \<rparr>)
      else if strictEq (fee + callFee) maxFee then
        (let total = num (5 / 100) in
         Inr (Some
          \<lparr> total_fee = total,
            call_fee = (total * callFee) / maxFee,
            strategist_fee = num 0,
            treasury_fee = num 0,
            stakers_fee = (total * fee) / maxFee \<rparr>))
      else if \<not> isNaN (strategistFee + callFee + beefyFee) then
        readFeeBatch feeBatch (\<lambda>fb. Some
          \<lparr> total_fee = total,
            call_fee = (total * callFee) / maxFee,
            strategist_fee = (total * strategistFee) / maxFee,
            treasury_fee = (total * treasurySplit fb * beefyFee) / maxFee,
            stakers_fee = (total * stakerSplit fb * beefyFee) / maxFee \<rparr>)
      else if \<not> isNaN (strategistFee + callFee + treasury) then
        Inr (Some
          \<lparr> total_fee = total,
            call_fee = (total * callFee) / maxFee,
            strategist_fee = (total * strategistFee) / maxFee,
            treasury_fee = (total * treasury) / maxFee,
            stakers_fee = num 0 \<rparr>)
      else if strictEq (callFee + treasury + rewards) maxFee then
        Inr (Some
          \<lparr> total_fee = total,
            call_fee = (total * callFee) / maxFee,
            strategist_fee = num 0,
            treasury_fee = (total * treasury) / maxFee,
            stakers_fee = (total * rewards) / maxFee \<rparr>)
      else if strictEq (callFee + beefyFee) maxFee then
        (let total = (if id' contractCalls = ''cake-cakev2-eol'' then num (1 / 100) else total) in
         readFeeBatch feeBatch (\<lambda>fb. Some
          \<lparr> total_fee = total,
            call_fee = (total * callFee) / maxFee,
            strategist_fee = num 0,
            treasury_fee = (total * treasurySplit fb * beefyFee) / maxFee,
            stakers_fee = (total * stakerSplit fb * beefyFee) / maxFee \<rparr>))
      else if strictEq (callFee + fee) maxFee then
        Inr (Some
          \<lparr> total_fee = total,
            call_fee = (total * callFee) / maxFee,
            strategist_fee = num 0,
            treasury_fee = num 0,
            stakers_fee = (total * fee) / maxFee \<rparr>)
      else Inr None)"

definition performanceFeesFromCalls ::
  "StrategyCallResponse \<Rightarrow> FeeBatchDetail option \<Rightarrow> error + PerformanceFee option" where
  "performanceFeesFromCalls contractCalls feeBatch =
     (case allFees contractCalls of
        Some a \<Rightarrow> map_sum (\<lambda>e. e) Some (performanceFromGetFees (performance_raw a) feeBatch)
      | None \<Rightarrow>
          (case breakdown contractCalls of
             Some b \<Rightarrow> map_sum (\<lambda>e. e) Some (performanceFromGetFees b feeBatch)
           | None \<Rightarrow>
               if includes_str (id' contractCalls) ''-maxi''
               then Inr (Some (performanceForMaxi contractCalls))
               else legacyFeeMappings contractCalls feeBatch))"

section \<open>The fee breakdown of one strategy\<close>

text \<open>
  \<open>now\<close> stands for \<^verbatim>\<open>Date.now()\<close>. The result is \<open>Inr None\<close> where the source returns
  \<^verbatim>\<open>undefined\<close>. The \<open>deposit\<close> property is present when the deposit fee is neither
  \<^verbatim>\<open>null\<close> nor \<^verbatim>\<open>undefined\<close>.
\<close>

definition mapStrategyCallsToFeeBreakdown ::
  "StrategyCallResponse \<Rightarrow> FeeBatchDetail option \<Rightarrow> nat \<Rightarrow> error + VaultFeeBreakdown option" where
  "mapStrategyCallsToFeeBreakdown contractCalls feeBatch now =
     (let withdrawFee = withdrawalFeeFromCalls contractCalls in
      case performanceFeesFromCalls contractCalls feeBatch of
        Inl e \<Rightarrow> Inl e
      | Inr performanceFee \<Rightarrow>
          (let depositFee = depositFeeFromCalls contractCalls in
           if withdrawFee = Undefined then Inr None
           else
             (case performanceFee of
                None \<Rightarrow> Inr None
              | Some p \<Rightarrow> Inr (Some
                  \<lparr> performance = p,
                    withdraw_fee = withdrawFee,
                    deposit = (if depositFee \<noteq> Null \<and> depositFee \<noteq> Undefined
                               then Some depositFee else None),
                    lastUpdated = now \<rparr>))))"

section \<open>The fee cache\<close>

text \<open>
  \<open>vaultFees\<close> is a plain object that maps a vault id to its breakdown. Reading
  \<^verbatim>\<open>vaultFees[vaultId]\<close> gives the object's own entry when there is one; otherwise, for
  a name that every object inherits from \<^verbatim>\<open>Object.prototype\<close>, the inherited member (a
  function, or the prototype itself for \<^verbatim>\<open>__proto__\<close>); otherwise \<^verbatim>\<open>undefined\<close>.
\<close>

definition objectPrototypeNames :: "string list" where
  "objectPrototypeNames =
     [''constructor'', ''__defineGetter__'', ''__defineSetter__'', ''hasOwnProperty'',
      ''__lookupGetter__'', ''__lookupSetter__'', ''isPrototypeOf'', ''propertyIsEnumerable'',
      ''toString'', ''valueOf'', ''__proto__'', ''toLocaleString'']"

datatype 'a property = Own 'a | Inherited | Missing

definition getProperty :: "(string \<rightharpoonup> 'a) \<Rightarrow> string \<Rightarrow> 'a property" where
  "getProperty obj key =
     (case obj key of
        Some v \<Rightarrow> Own v
      | None \<Rightarrow> if key \<in> set objectPrototypeNames then Inherited else Missing)"

text \<open>
  A stored breakdown and an inherited member are truthy, so only a missing property takes
  the default. An inherited member has no \<^verbatim>\<open>performance\<close> property, and reading
  \<^verbatim>\<open>total\<close> of \<^verbatim>\<open>undefined\<close> throws a TypeError.
\<close>

definition getTotalPerformanceFeeForVault ::
  "(string \<rightharpoonup> VaultFeeBreakdown) \<Rightarrow> string \<Rightarrow> error + jsval" where
  "getTotalPerformanceFeeForVault vaultFees vaultId =
     (case getProperty vaultFees vaultId of
        Missing \<Rightarrow> Inr (num (95 / 1000))
      | Own b \<Rightarrow> Inr (total_fee (performance b))
      | Inherited \<Rightarrow> Inl TypeError)"

section \<open>The fee batch registry\<close>

text \<open>
  \<^verbatim>\<open>treasuryFee().call()\<close> either returns the decoded \<^verbatim>\<open>uint256\<close> or throws an error
  with a message. The decoder hands the value back as a decimal string (truthy whatever the
  value) or as a number (falsy when zero); both are covered, and in both the number the
  division sees is the double nearest to the value. The chain id of zksync comes from the
  address book and is a parameter. The division and the subtraction round to a double.
\<close>

datatype decoded = AsString nat | AsNumber nat

datatype call_result = Returned decoded | Threw string

fun truthy :: "decoded option \<Rightarrow> bool" where
  "truthy None = False"
| "truthy (Some (AsString n)) = True"
| "truthy (Some (AsNumber n)) = (n \<noteq> 0)"

fun numeratorOf :: "decoded \<Rightarrow> nat" where
  "numeratorOf (AsString n) = n"
| "numeratorOf (AsNumber n) = n"

fun decodedToNumber :: "decoded \<Rightarrow> jsval" where
  "decodedToNumber (AsString n) = toDouble (num (of_nat n))"
| "decodedToNumber (AsNumber n) = toDouble (num (of_nat n))"

definition treasurySplitOf :: "nat \<Rightarrow> nat \<Rightarrow> call_result \<Rightarrow> decoded option" where
  "treasurySplitOf zksync chainId res =
     (case res of
        Returned v \<Rightarrow> Some v
      | Threw message \<Rightarrow>
          if includes_str message ''revert'' \<or> includes_str message ''correct ABI''
          then Some (AsNumber 140)
          else if chainId = zksync \<and> includes_str message ''cannot estimate gas''
          then Some (AsNumber 640)
          else None)"

definition updateFeeBatch ::
  "nat \<Rightarrow> nat \<Rightarrow> string \<Rightarrow> call_result \<Rightarrow> (nat \<rightharpoonup> FeeBatchDetail) \<Rightarrow> (nat \<rightharpoonup> FeeBatchDetail)" where
  "updateFeeBatch zksync chainId feeBatchAddress res feeBatches =
     (let treasurySplit = treasurySplitOf zksync chainId res in
      if truthy treasurySplit then
        (case treasurySplit of
           Some v \<Rightarrow> feeBatches(chainId \<mapsto>
             \<lparr> address = feeBatchAddress,
               treasurySplit = toDouble (decodedToNumber v / num 1000),
               stakerSplit = toDouble (num 1 - toDouble (decodedToNumber v / num 1000)) \<rparr>)
         | None \<Rightarrow> feeBatches)
      else feeBatches)"

text \<open>
  The loop over the chains of the address book (chain id and fee recipient address);
  \<open>treasuryFee\<close> gives the outcome of the call on each chain.
\<close>

fun updateFeeBatches ::
  "nat \<Rightarrow> (nat \<times> string) list \<Rightarrow> (nat \<Rightarrow> call_result) \<Rightarrow> (nat \<rightharpoonup> FeeBatchDetail)
     \<Rightarrow> (nat \<rightharpoonup> FeeBatchDetail)" where
  "updateFeeBatches zksync [] treasuryFee feeBatches = feeBatches"
| "updateFeeBatches zksync ((chainId, feeBatchAddress) # rest) treasuryFee feeBatches =
     updateFeeBatches zksync rest treasuryFee
       (updateFeeBatch zksync chainId feeBatchAddress (treasuryFee chainId) feeBatches)"

section \<open>Probes and shapes used in the statements\<close>

text \<open>A probe to which no accessor responded.\<close>

definition emptyProbe :: "string \<Rightarrow> string \<Rightarrow> StrategyCallResponse" where
  "emptyProbe vaultId strategyAddress =
     \<lparr> id' = vaultId, strategy = strategyAddress,
       strategist = Undefined, strategist2 = Undefined,
       call = Undefined, call2 = Undefined, call3 = Undefined, call4 = Undefined,
       maxCallFee = Undefined, beefy = Undefined, fee = Undefined, treasury = Undefined,
       rewards = Undefined, rewards2 = Undefined,
       breakdown = None, allFees = None,
       maxFee = Undefined, maxFee2 = Undefined, maxFee3 = Undefined,
       withdraw = Undefined, withdraw2 = Undefined,
       withdrawMax = Undefined, withdrawMax2 = Undefined,
       paused = None \<rparr>"

text \<open>The split 0.14 / 0.86 of the historical numerator 140, as a fee batch given to the classifier.\<close>

definition historicalSplit :: FeeBatchDetail where
  "historicalSplit =
     \<lparr> address = ''0xfeeBatch'', treasurySplit = num (14 / 100), stakerSplit = num (86 / 100) \<rparr>"

text \<open>The components of the legacy generation: the first accessor variant that responded.\<close>

definition callFeeOf :: "StrategyCallResponse \<Rightarrow> jsval" where
  "callFeeOf c = nullish (nullish (nullish (call c) (call2 c)) (call3 c)) (call4 c)"

definition strategistFeeOf :: "StrategyCallResponse \<Rightarrow> jsval" where
  "strategistFeeOf c = nullish (strategist c) (strategist2 c)"

definition maxFeeOf :: "StrategyCallResponse \<Rightarrow> jsval" where
  "maxFeeOf c = nullish (nullish (maxFee c) (maxFee2 c)) (maxFee3 c)"

definition rewardsOf :: "StrategyCallResponse \<Rightarrow> jsval" where
  "rewardsOf c = nullish (rewards c) (rewards2 c)"

text \<open>
  The specification's reading of the legacy generation: seven shapes, each accepted when
  the sum of its components equals the declared max-fee denominator. \<open>legacySumMatches\<close>
  says, shape by shape, whether that sum equals the denominator.
\<close>

definition legacySumMatches :: "StrategyCallResponse \<Rightarrow> bool list" where
  "legacySumMatches c =
     [strictEq (callFeeOf c + strategistFeeOf c + beefy c) (maxFeeOf c),
      strictEq (callFeeOf c + strategistFeeOf c + rewardsOf c + treasury c) (maxFeeOf c),
      strictEq (fee c + callFeeOf c) (maxFeeOf c),
      strictEq (strategistFeeOf c + callFeeOf c + beefy c) (maxFeeOf c),
      strictEq (strategistFeeOf c + callFeeOf c + treasury c) (maxFeeOf c),
      strictEq (callFeeOf c + treasury c + rewardsOf c) (maxFeeOf c),
      strictEq (callFeeOf c + beefy c) (maxFeeOf c)]"

text \<open>
  The legacy generation as an ordered list of (condition, formula) pairs, the first pair
  whose condition holds giving the result. The fourth and fifth conditions only ask that
  the sum of the three components is a number; they do not compare it with the max fee.
\<close>

fun firstMatch :: "(bool \<times> 'a) list \<Rightarrow> 'a \<Rightarrow> 'a" where
  "firstMatch [] d = d"
| "firstMatch ((b, x) # xs) d = (if b then x else firstMatch xs d)"

definition legacyShapes ::
  "StrategyCallResponse \<Rightarrow> FeeBatchDetail option \<Rightarrow> (bool \<times> (error + PerformanceFee option)) list" where
  "legacyShapes c feeBatch =
     [(strictEq (callFeeOf c + strategistFeeOf c + beefy c) (maxFeeOf c),
       readFeeBatch feeBatch (\<lambda>fb. Some
         \<lparr> total_fee = num (45 / 1000),
           call_fee = num (45 / 1000) * callFeeOf c / maxFeeOf c,
           strategist_fee = num (45 / 1000) * strategistFeeOf c / maxFeeOf c,
           treasury_fee = num (45 / 1000) * treasurySplit fb * beefy c / maxFeeOf c,
           stakers_fee = num (45 / 1000) * stakerSplit fb * beefy c / maxFeeOf c \<rparr>)),
      (strictEq (callFeeOf c + strategistFeeOf c + rewardsOf c + treasury c) (maxFeeOf c),
       Inr (Some
         \<lparr> total_fee = num (45 / 1000),
           call_fee = num (45 / 1000) * callFeeOf c / maxFeeOf c,
           strategist_fee = num (45 / 1000) * strategistFeeOf c / maxFeeOf c,
           treasury_fee = num (45 / 1000) * treasury c / maxFeeOf c,
           stakers_fee = num (45 / 1000) * rewardsOf c / maxFeeOf c \<rparr>)),
      (strictEq (fee c + callFeeOf c) (maxFeeOf c),
       Inr (Some
         \<lparr> total_fee = num (5 / 100),
           call_fee = num (5 / 100) * callFeeOf c / maxFeeOf c,
           strategist_fee = num 0,
           treasury_fee = num 0,
           stakers_fee = num (5 / 100) * fee c / maxFeeOf c \<rparr>)),
      (\<not> isNaN (strategistFeeOf c + callFeeOf c + beefy c),
       readFeeBatch feeBatch (\<lambda>fb. Some
         \<lparr> total_fee = num (45 / 1000),
           call_fee = num (45 / 1000) * callFeeOf c / maxFeeOf c,
           strategist_fee = num (45 / 1000) * strategistFeeOf c / maxFeeOf c,
           treasury_fee = num (45 / 1000) * treasurySplit fb * beefy c / maxFeeOf c,
           stakers_fee = num (45 / 1000) * stakerSplit fb * beefy c / maxFeeOf c \<rparr>)),
      (\<not> isNaN (strategistFeeOf c + callFeeOf c + treasury c),
       Inr (Some
         \<lparr> total_fee = num (45 / 1000),
           call_fee = num (45 / 1000) * callFeeOf c / maxFeeOf c,
           strategist_fee = num (45 / 1000) * strategistFeeOf c / maxFeeOf c,
           treasury_fee = num (45 / 1000) * treasury c / maxFeeOf c,
           stakers_fee = num 0 \<rparr>)),
      (strictEq (callFeeOf c + treasury c + rewardsOf c) (maxFeeOf c),
       Inr (Some
         \<lparr> total_fee = num (45 / 1000),
           call_fee = num (45 / 1000) * callFeeOf c / maxFeeOf c,
           strategist_fee = num 0,
           treasury_fee = num (45 / 1000) * treasury c / maxFeeOf c,
           stakers_fee = num (45 / 1000) * rewardsOf c / maxFeeOf c \<rparr>)),
      (strictEq (callFeeOf c + beefy c) (maxFeeOf c),
       readFeeBatch feeBatch (\<lambda>fb. Some
         \<lparr> total_fee = (if id' c = ''cake-cakev2-eol'' then num (1 / 100) else num (45 / 1000)),
           call_fee = (if id' c = ''cake-cakev2-eol'' then num (1 / 100) else num (45 / 1000))
                        * callFeeOf c / maxFeeOf c,
           strategist_fee = num 0,
           treasury_fee = (if id' c = ''cake-cakev2-eol'' then num (1 / 100) else num (45 / 1000))
                            * treasurySplit fb * beefy c / maxFeeOf c,
           stakers_fee = (if id' c = ''cake-cakev2-eol'' then num (1 / 100) else num (45 / 1000))
                           * stakerSplit fb * beefy c / maxFeeOf c \<rparr>)),
      (strictEq (callFeeOf c + fee c) (maxFeeOf c),
       Inr (Some
         \<lparr> total_fee = num (45 / 1000),
           call_fee = num (45 / 1000) * callFeeOf c / maxFeeOf c,
           strategist_fee = num 0,
           treasury_fee = num 0,
           stakers_fee = num (45 / 1000) * fee c / maxFeeOf c \<rparr>))]"

text \<open>
  Which shape matched: \<open>fee + call = maxFee\<close> is the first condition that holds, and
  \<open>call + beefy = maxFee\<close> is the first condition that holds.
\<close>

definition feeCallShapeMatched :: "StrategyCallResponse \<Rightarrow> bool" where
  "feeCallShapeMatched c =
     (\<not> strictEq (callFeeOf c + strategistFeeOf c + beefy c) (maxFeeOf c) \<and>
      \<not> strictEq (callFeeOf c + strategistFeeOf c + rewardsOf c + treasury c) (maxFeeOf c) \<and>
      strictEq (fee c + callFeeOf c) (maxFeeOf c))"

definition callBeefyShapeMatched :: "StrategyCallResponse \<Rightarrow> bool" where
  "callBeefyShapeMatched c =
     (\<not> strictEq (callFeeOf c + strategistFeeOf c + beefy c) (maxFeeOf c) \<and>
      \<not> strictEq (callFeeOf c + strategistFeeOf c + rewardsOf c + treasury c) (maxFeeOf c) \<and>
      \<not> strictEq (fee c + callFeeOf c) (maxFeeOf c) \<and>
      isNaN (strategistFeeOf c + callFeeOf c + beefy c) \<and>
      isNaN (strategistFeeOf c + callFeeOf c + treasury c) \<and>
      \<not> strictEq (callFeeOf c + treasury c + rewardsOf c) (maxFeeOf c) \<and>
      strictEq (callFeeOf c + beefy c) (maxFeeOf c))"

text \<open>
  An aggregate getter response (total 0.05, beefy 0.9, call 0.05 and strategist 0.05 at 1e18
  precision, withdraw 10, deposit 100), and the breakdown it yields under the historical
  split.
\<close>

definition aggregateResponse :: AllFeesResponse where
  "aggregateResponse =
     \<lparr> performance_raw =
         \<lparr> total_raw = 50000000000000000, beefy_raw = 900000000000000000,
           strategist_raw = 50000000000000000, call_raw = 50000000000000000 \<rparr>,
       withdraw_raw = 10, deposit_raw = 100 \<rparr>"

definition aggregateBreakdown :: "nat \<Rightarrow> VaultFeeBreakdown" where
  "aggregateBreakdown now =
     \<lparr> performance =
         \<lparr> total_fee = num (5 / 100), call_fee = num (25 / 10000),
           strategist_fee = num (25 / 10000), treasury_fee = num (63 / 10000),
           stakers_fee = num (387 / 10000) \<rparr>,
       withdraw_fee = num (1 / 1000), deposit = Some (num (1 / 100)), lastUpdated = now \<rparr>"

text \<open>
  A legacy probe whose components satisfy both \<open>call + strategist + beefy = maxFee\<close> and
  \<open>call + treasury + rewards = maxFee\<close>.
\<close>

definition bothShapesProbe :: StrategyCallResponse where
  "bothShapesProbe =
     (emptyProbe ''vault'' ''0x01'')
       \<lparr> strategist := num 500, call := num 500, beefy := num 9000, treasury := num 4000,
         rewards := num 5500, maxFee := num 10000 \<rparr>"

text \<open>
  A legacy probe in which no sum of components equals the max fee, and the probe of the
  vault \<open>cake-cakev2-eol\<close>.
\<close>

definition noSumProbe :: StrategyCallResponse where
  "noSumProbe =
     (emptyProbe ''vault'' ''0x01'')
       \<lparr> strategist := num 500, call := num 500, beefy := num 4000, maxFee := num 10000 \<rparr>"

definition cakeProbe :: StrategyCallResponse where
  "cakeProbe =
     (emptyProbe ''cake-cakev2-eol'' ''0x01'')
       \<lparr> call := num 500, beefy := num 9500, maxFee := num 10000 \<rparr>"

text \<open>A legacy probe with \<open>fee + call = maxFee\<close>.\<close>

definition feeCallProbe :: StrategyCallResponse where
  "feeCallProbe =
     (emptyProbe ''vault'' ''0x01'') \<lparr> call := num 500, fee := num 9500, maxFee := num 10000 \<rparr>"

text \<open>A maxi vault at the avax maxi address, without and with an aggregate getter.\<close>

definition avaxMaxiProbe :: StrategyCallResponse where
  "avaxMaxiProbe =
     (emptyProbe ''avax-bifi-maxi'' ''0xca077eEC87e2621F5B09AFE47C42BAF88c6Af18c'')
       \<lparr> call := num 50, maxCallFee := num 100, maxFee := num 1000 \<rparr>"

definition avaxMaxiAggregateProbe :: StrategyCallResponse where
  "avaxMaxiAggregateProbe = avaxMaxiProbe \<lparr> allFees := Some aggregateResponse \<rparr>"

text \<open>A fee batch contract without the accessor: the call reverts on every chain.\<close>

definition revertingCall :: "nat \<Rightarrow> call_result" where
  "revertingCall chainId = Threw ''execution reverted''"

section \<open>Evaluation lemmas\<close>

lemmas js_arith =
  plus_jsval_def minus_jsval_def times_jsval_def divide_jsval_def minus_jsnum_def

lemmas component_defs = callFeeOf_def strategistFeeOf_def maxFeeOf_def rewardsOf_def

lemma lower_avax:
  "toLowerCase ''0xca077eEC87e2621F5B09AFE47C42BAF88c6Af18c''
     = ''0xca077eec87e2621f5b09afe47c42baf88c6af18c''"
  by (simp add: toLowerCase_def toLowerChar_def)

lemma lower_first:
  "toLowerCase ''0x436D5127F16fAC1F021733dda090b5E6DE30b3bB''
     = ''0x436d5127f16fac1f021733dda090b5e6de30b3bb''"
  "toLowerCase ''0xa9E6E271b27b20F65394914f8784B3B860dBd259''
     = ''0xa9e6e271b27b20f65394914f8784b3b860dbd259''"
  by (simp_all add: toLowerCase_def toLowerChar_def)

lemma lower_legacy:
  "toLowerCase ''0x24AAaB9DA14308bAf9d670e2a37369FE8Cb5Fe36''
     = ''0x24aaab9da14308baf9d670e2a37369fe8cb5fe36''"
  "toLowerCase ''0x22b3d90BDdC3Ad5F2948bE3914255C64Ebc8c9b3''
     = ''0x22b3d90bddc3ad5f2948be3914255c64ebc8c9b3''"
  "toLowerCase ''0xbCF1e02ac0c45729dC85F290C4A6AB35c4801cB1''
     = ''0xbcf1e02ac0c45729dc85f290c4a6ab35c4801cb1''"
  "toLowerCase ''0xb25eB9105549627050AAB3A1c909fBD454014beA''
     = ''0xb25eb9105549627050aab3a1c909fbd454014bea''"
  by (simp_all add: toLowerCase_def toLowerChar_def)

lemma lower_bifi:
  "toLowerCase ''0x87056F5E8Dce0fD71605E6E291C6a3B53cbc3818''
     = ''0x87056f5e8dce0fd71605e6e291c6a3b53cbc3818''"
  by (simp add: toLowerCase_def toLowerChar_def)

lemmas lower_addresses = lower_avax lower_first lower_legacy lower_bifi

text \<open>The chain of conditionals of \<open>legacyFeeMappings\<close> is the ordered list of shapes.\<close>

lemma legacy_as_shapes:
  "legacyFeeMappings c feeBatch = firstMatch (legacyShapes c feeBatch) (Inr None)"
  by (simp add: legacyFeeMappings_def legacyShapes_def Let_def component_defs)

lemma legacy_generation:
  "allFees c = None \<Longrightarrow> breakdown c = None \<Longrightarrow> \<not> includes_str (id' c) ''-maxi'' \<Longrightarrow>
     performanceFeesFromCalls c feeBatch = legacyFeeMappings c feeBatch"
  by (simp add: performanceFeesFromCalls_def)

lemma withdrawalFee_is_number: "\<exists>n. withdrawalFeeFromCalls c = Number n"
  by (simp add: withdrawalFeeFromCalls_def Let_def divide_jsval_def split: option.split)

lemma rhe_of_int [simp]: "roundHalfEven (of_int z) = z"
  by (simp add: roundHalfEven_def)

lemma rhe_near: "\<bar>q - of_int z\<bar> < 1 / 2 \<Longrightarrow> roundHalfEven q = z"
proof -
  assume a: "\<bar>q - of_int z\<bar> < 1 / 2"
  show ?thesis
  proof (cases "of_int z \<le> q")
    case True
    then have "\<lfloor>q\<rfloor> = z" using a by (intro floor_unique) auto
    then show ?thesis using a True by (simp add: roundHalfEven_def Let_def)
  next
    case False
    then have f: "\<lfloor>q\<rfloor> = z - 1" using a by (intro floor_unique) auto
    then show ?thesis using a False by (auto simp: roundHalfEven_def Let_def)
  qed
qed

lemma rhe_tie_below: "even z \<Longrightarrow> roundHalfEven (of_int z - 1 / 2) = z"
proof -
  assume e: "even z"
  have f: "\<lfloor>(of_int z :: rat) - 1 / 2\<rfloor> = z - 1" by (intro floor_unique) auto
  show ?thesis using e by (simp add: roundHalfEven_def Let_def f)
qed

lemma rhe_cases: "roundHalfEven q = \<lfloor>q\<rfloor> \<or> roundHalfEven q = \<lfloor>q\<rfloor> + 1 \<and> of_int \<lfloor>q\<rfloor> + 1 / 2 \<le> q"
  by (auto simp: roundHalfEven_def Let_def)

lemma rhe_error: "\<bar>of_int (roundHalfEven q) - q\<bar> \<le> 1 / 2"
proof -
  have "of_int \<lfloor>q\<rfloor> \<le> q" "q < of_int \<lfloor>q\<rfloor> + 1" by linarith+
  then show ?thesis
    by (auto simp: roundHalfEven_def Let_def)
qed

lemma rhe_nonneg: "0 \<le> q \<Longrightarrow> 0 \<le> roundHalfEven q"
  by (auto simp: roundHalfEven_def Let_def)

lemma rhe_bound:
  assumes "\<bar>q\<bar> \<le> of_int N"
  shows "\<bar>roundHalfEven q\<bar> \<le> N"
proof -
  have lo: "- N \<le> \<lfloor>q\<rfloor>" using assms by (auto simp: le_floor_iff abs_le_iff)
  have hi: "\<lfloor>q\<rfloor> \<le> N" using assms by (auto simp: floor_le_iff abs_le_iff)
  have hi': "\<lfloor>q\<rfloor> + 1 \<le> N" if "of_int \<lfloor>q\<rfloor> + 1 / 2 \<le> q"
  proof -
    have "of_int \<lfloor>q\<rfloor> < (of_int N :: rat)" using that assms by (simp add: abs_le_iff)
    then show ?thesis by simp
  qed
  from rhe_cases [of q] lo hi hi' show ?thesis by auto
qed

lemma two_powi_nat: "0 \<le> e \<Longrightarrow> (2::rat) powi e = 2 ^ nat e"
  by (simp add: power_int_def)

lemma two_powi_neg: "0 \<le> b \<Longrightarrow> (2::rat) powi (- b) = 1 / 2 ^ nat b"
  by (simp add: power_int_def field_simps)

lemma exponentOf_bounds:
  assumes "0 < v"
  shows "2 powi (exponentOf v) \<le> v" and "v < 2 powi (exponentOf v + 1)"
proof -
  have "2 powi (exponentOf v) \<le> v \<and> v < 2 powi (exponentOf v + 1)"
  proof (cases "1 \<le> v")
    case True
    define N where "N = \<lfloor>v\<rfloor>"
    have N: "0 < N" "of_int N \<le> v" "v < of_int N + 1"
      using True by (simp_all add: N_def) linarith
    from bitlen_bounds [OF N(1)]
    have b: "2 ^ nat (bitlen N - 1) \<le> N" "N < 2 ^ nat (bitlen N)" by auto
    have b1: "1 \<le> bitlen N" using N(1) bitlen_eq_zero_iff [of N] bitlen_nonneg [of N] by linarith
    have e: "exponentOf v = bitlen N - 1" using True by (simp add: exponentOf_def N_def)
    have "(2::rat) ^ nat (bitlen N - 1) \<le> of_int N"
      using b(1) by (metis of_int_le_iff of_int_numeral of_int_power)
    moreover have "of_int N + 1 \<le> (2::rat) ^ nat (bitlen N)"
    proof -
      have "N + 1 \<le> 2 ^ nat (bitlen N)" using b(2) by simp
      then have "of_int (N + 1) \<le> (of_int (2 ^ nat (bitlen N)) :: rat)" by (simp only: of_int_le_iff)
      then show ?thesis by simp
    qed
    moreover have "(2::rat) powi (bitlen N - 1) = 2 ^ nat (bitlen N - 1)"
      using b1 by (simp add: two_powi_nat)
    moreover have "(2::rat) powi (bitlen N - 1 + 1) = 2 ^ nat (bitlen N)"
      using b1 by (simp add: two_powi_nat)
    ultimately show ?thesis
      unfolding e using N by linarith
  next
    case False
    define w where "w = 1 / v"
    have w: "1 < w" using False assms by (simp add: w_def)
    define N where "N = \<lceil>w\<rceil> - 1"
    have N: "0 < N" "of_int N < w" "w \<le> of_int N + 1"
      using w by (simp_all add: N_def) linarith+
    from bitlen_bounds [OF N(1)]
    have b: "2 ^ nat (bitlen N - 1) \<le> N" "N < 2 ^ nat (bitlen N)" by auto
    have b1: "1 \<le> bitlen N" using N(1) bitlen_eq_zero_iff [of N] bitlen_nonneg [of N] by linarith
    have e: "exponentOf v = - bitlen N" using False by (simp add: exponentOf_def N_def w_def)
    have lo: "(2::rat) ^ nat (bitlen N - 1) \<le> of_int N"
      using b(1) by (metis of_int_le_iff of_int_numeral of_int_power)
    have hi: "of_int N + 1 \<le> (2::rat) ^ nat (bitlen N)"
    proof -
      have "N + 1 \<le> 2 ^ nat (bitlen N)" using b(2) by simp
      then have "of_int (N + 1) \<le> (of_int (2 ^ nat (bitlen N)) :: rat)" by (simp only: of_int_le_iff)
      then show ?thesis by simp
    qed
    have v: "v = 1 / w" using assms by (simp add: w_def)
    have "w \<le> 2 ^ nat (bitlen N)" using hi N(3) by linarith
    then have l: "1 / 2 ^ nat (bitlen N) \<le> v"
      using w by (simp add: v field_simps)
    have "2 ^ nat (bitlen N - 1) < w" using lo N(2) by linarith
    then have u: "v < 1 / 2 ^ nat (bitlen N - 1)"
      using w by (simp add: v field_simps)
    have "- bitlen N + 1 = - (bitlen N - 1)" by simp
    then have "(2::rat) powi (- bitlen N + 1) = 1 / 2 ^ nat (bitlen N - 1)"
      using b1 two_powi_neg [of "bitlen N - 1"] by simp
    moreover have "(2::rat) powi (- bitlen N) = 1 / 2 ^ nat (bitlen N)"
      using b1 by (simp add: two_powi_neg)
    ultimately show ?thesis
      unfolding e using l u by linarith
  qed
  then show "2 powi (exponentOf v) \<le> v" and "v < 2 powi (exponentOf v + 1)" by auto
qed

lemma two_powi_mono: "a \<le> b \<Longrightarrow> (2::rat) powi a \<le> 2 powi b"
  by (rule power_int_increasing) auto

lemma exponentOf_unique:
  assumes "0 < v" and "2 powi e \<le> v" and "v < 2 powi (e + 1)"
  shows "exponentOf v = e"
proof (rule ccontr)
  assume ne: "exponentOf v \<noteq> e"
  note b = exponentOf_bounds [OF assms(1)]
  show False
  proof (cases "exponentOf v < e")
    case True
    then have "(2::rat) powi (exponentOf v + 1) \<le> 2 powi e" by (intro two_powi_mono) simp
    with b(2) assms(2) show False by linarith
  next
    case False
    with ne have "e + 1 \<le> exponentOf v" by simp
    then have "(2::rat) powi (e + 1) \<le> 2 powi (exponentOf v)" by (rule two_powi_mono)
    with b(1) assms(3) show False by linarith
  qed
qed


lemma two_powi_add: "(2::rat) powi (a + b) = 2 powi a * 2 powi b"
  by (simp add: power_int_add)

lemma two_powi_pos: "0 < (2::rat) powi a"
  by simp

lemma roundFinite_unfold:
  assumes "v \<noteq> 0" and "e = max (exponentOf \<bar>v\<bar>) (- 1022)"
  shows "roundFinite v = of_int (roundHalfEven (v / 2 powi (e - 52))) * 2 powi (e - 52)"
  using assms by (simp add: roundFinite_def Let_def)

lemma roundFinite_isDouble:
  assumes "isDouble v"
  shows "roundFinite v = v"
proof (cases "v = 0")
  case True
  then show ?thesis by (simp add: roundFinite_def)
next
  case False
  from assms obtain m k where mk: "v = of_int m * 2 powi k" "\<bar>m\<bar> < 2 ^ 53" "- 1074 \<le> k"
    unfolding isDouble_def by blast
  define e where "e = max (exponentOf \<bar>v\<bar>) (- 1022)"
  have pos: "0 < \<bar>v\<bar>" using False by simp
  have absv: "\<bar>v\<bar> = of_int \<bar>m\<bar> * 2 powi k"
    by (simp add: mk(1) abs_mult)
  have le: "e - 52 \<le> k"
  proof (rule ccontr)
    assume "\<not> e - 52 \<le> k"
    then have k: "k + 53 \<le> e" by simp
    with mk(3) have "e = exponentOf \<bar>v\<bar>" by (simp add: e_def max_def split: if_splits)
    with exponentOf_bounds(1) [OF pos] have lo: "2 powi e \<le> \<bar>v\<bar>" by simp
    have "(of_int \<bar>m\<bar> :: rat) < of_int (2 ^ 53)" using mk(2) by (simp only: of_int_less_iff)
    then have "(of_int \<bar>m\<bar> :: rat) < 2 powi 53" by simp
    then have "\<bar>v\<bar> < 2 powi 53 * 2 powi k"
      unfolding absv using two_powi_pos [of k] by (simp only: mult_strict_right_mono)
    also have "\<dots> = 2 powi (k + 53)" by (simp add: two_powi_add)
    also have "\<dots> \<le> 2 powi e" using k by (rule two_powi_mono)
    finally show False using lo by simp
  qed
  define j where "j = nat (k - (e - 52))"
  have "k = int j + (e - 52)" using le by (simp add: j_def)
  then have "(2::rat) powi k = 2 ^ j * 2 powi (e - 52)"
    using two_powi_add [of "int j" "e - 52"] by simp
  then have q: "v / 2 powi (e - 52) = of_int (m * 2 ^ j)"
    by (simp add: mk(1))
  show ?thesis
    unfolding roundFinite_unfold [OF False e_def] q rhe_of_int
    using q by (simp add: field_simps)
qed

lemma roundFinite_quotient_bound:
  assumes "v \<noteq> 0" and "e = max (exponentOf \<bar>v\<bar>) (- 1022)"
  shows "\<bar>v / 2 powi (e - 52)\<bar> < 2 ^ 53"
proof -
  have pos: "0 < \<bar>v\<bar>" using assms(1) by simp
  have "exponentOf \<bar>v\<bar> + 1 \<le> e + 1" using assms(2) by simp
  then have "(2::rat) powi (exponentOf \<bar>v\<bar> + 1) \<le> 2 powi (e + 1)" by (rule two_powi_mono)
  with exponentOf_bounds(2) [OF pos] have "\<bar>v\<bar> < 2 powi (e + 1)" by linarith
  also have "(2::rat) powi (e + 1) = 2 ^ 53 * 2 powi (e - 52)"
  proof -
    have eq: "e + 1 = 53 + (e - 52)" by simp
    have "(2::rat) powi (e + 1) = 2 powi 53 * 2 powi (e - 52)"
      by (subst eq) (rule two_powi_add)
    then show ?thesis by simp
  qed
  finally have "\<bar>v\<bar> / 2 powi (e - 52) < 2 ^ 53"
    using two_powi_pos [of "e - 52"] by (simp add: field_simps)
  then show ?thesis by (simp add: abs_divide)
qed

lemma isDoubleI: "v = of_int m * 2 powi k \<Longrightarrow> \<bar>m\<bar> < 2 ^ 53 \<Longrightarrow> - 1074 \<le> k \<Longrightarrow> isDouble v"
  unfolding isDouble_def by blast

lemma isDouble_zero: "isDouble 0"
  by (rule isDoubleI [of _ 0 0]) simp_all

lemma half_step: "of_int (2 ^ 53) * (1 / 2 * (x::rat)) = of_int (2 ^ 52) * x"
  "of_int (- (2 ^ 53)) * (1 / 2 * (x::rat)) = of_int (- (2 ^ 52)) * x"
  by simp_all

lemma isDouble_roundFinite: "isDouble (roundFinite v)"
proof (cases "v = 0")
  case True
  then show ?thesis by (simp add: roundFinite_def isDouble_zero)
next
  case False
  define e where "e = max (exponentOf \<bar>v\<bar>) (- 1022)"
  define z where "z = roundHalfEven (v / 2 powi (e - 52))"
  have r: "roundFinite v = of_int z * 2 powi (e - 52)"
    unfolding z_def by (rule roundFinite_unfold [OF False e_def])
  have e: "- 1074 \<le> e - 52" "- 1074 \<le> e - 51" by (simp_all add: e_def)
  have "\<bar>v / 2 powi (e - 52)\<bar> \<le> of_int (2 ^ 53)"
    using roundFinite_quotient_bound [OF False e_def] by simp
  then have zb: "\<bar>z\<bar> \<le> 2 ^ 53" unfolding z_def by (rule rhe_bound)
  have half: "(2::rat) powi (e - 52) = (1 / 2) * 2 powi (e - 51)"
  proof -
    have eq: "e - 52 = - 1 + (e - 51)" by simp
    have "(2::rat) powi (e - 52) = 2 powi (- 1) * 2 powi (e - 51)"
      by (subst eq) (rule two_powi_add)
    then show ?thesis by (simp add: power_int_minus)
  qed
  consider "\<bar>z\<bar> < 2 ^ 53" | "z = 2 ^ 53" | "z = - (2 ^ 53)"
    using zb by linarith
  then show ?thesis
  proof cases
    case 1
    from r 1 e(1) show ?thesis by (rule isDoubleI)
  next
    case 2
    have "roundFinite v = of_int (2 ^ 52) * 2 powi (e - 51)"
      unfolding r half 2 by (rule half_step)
    moreover have "\<bar>(2::int) ^ 52\<bar> < 2 ^ 53" by simp
    ultimately show ?thesis using e(2) by (rule isDoubleI)
  next
    case 3
    have "roundFinite v = of_int (- (2 ^ 52)) * 2 powi (e - 51)"
      unfolding r half 3 by (rule half_step)
    moreover have "\<bar>- ((2::int) ^ 52)\<bar> < 2 ^ 53" by simp
    ultimately show ?thesis using e(2) by (rule isDoubleI)
  qed
qed


lemma roundFinite_at:
  assumes "0 < v" and "2 powi e \<le> v" and "v < 2 powi (e + 1)" and "- 1022 \<le> e"
  shows "roundFinite v = of_int (roundHalfEven (v / 2 powi (e - 52))) * 2 powi (e - 52)"
proof -
  have "exponentOf \<bar>v\<bar> = e" using assms(1-3) by (simp add: exponentOf_unique)
  then have "e = max (exponentOf \<bar>v\<bar>) (- 1022)" using assms(4) by simp
  moreover have "v \<noteq> 0" using assms(1) by simp
  ultimately show ?thesis by (rule roundFinite_unfold [rotated])
qed

lemma roundFinite_one: "roundFinite 1 = 1"
proof -
  have "isDouble 1" by (rule isDoubleI [of _ 1 0]) simp_all
  then show ?thesis by (rule roundFinite_isDouble)
qed

lemma roundFinite_nonneg:
  assumes "0 \<le> v"
  shows "0 \<le> roundFinite v"
proof (cases "v = 0")
  case True
  then show ?thesis by (simp add: roundFinite_def)
next
  case False
  define e where "e = max (exponentOf \<bar>v\<bar>) (- 1022)"
  have "0 \<le> v / 2 powi (e - 52)" using assms by simp
  then have "0 \<le> roundHalfEven (v / 2 powi (e - 52))" by (rule rhe_nonneg)
  then show ?thesis
    unfolding roundFinite_unfold [OF False e_def] by simp
qed

lemma roundFinite_abs_bound:
  assumes "\<bar>v\<bar> \<le> 2 ^ 53"
  shows "\<bar>roundFinite v\<bar> \<le> 2 ^ 53"
proof (cases "v = 0")
  case True
  then show ?thesis by (simp add: roundFinite_def)
next
  case False
  define e where "e = max (exponentOf \<bar>v\<bar>) (- 1022)"
  define u where "u = (2::rat) powi (e - 52)"
  have upos: "0 < u" by (simp add: u_def)
  have pos: "0 < \<bar>v\<bar>" using False by simp
  have "exponentOf \<bar>v\<bar> \<le> 53"
  proof (rule ccontr)
    assume "\<not> exponentOf \<bar>v\<bar> \<le> 53"
    then have "54 \<le> exponentOf \<bar>v\<bar>" by simp
    then have "(2::rat) powi 54 \<le> 2 powi (exponentOf \<bar>v\<bar>)" by (rule two_powi_mono)
    with exponentOf_bounds(1) [OF pos] assms show False by simp
  qed
  then have e53: "e \<le> 53" by (simp add: e_def)
  define j where "j = nat (105 - e)"
  have "53 = int j + (e - 52)" using e53 by (simp add: j_def)
  then have "(2::rat) powi 53 = 2 powi (int j) * 2 powi (e - 52)"
    by (simp only: two_powi_add)
  then have top: "(2::rat) ^ 53 = of_int (2 ^ j) * u" by (simp add: u_def)
  have "\<bar>v\<bar> \<le> of_int (2 ^ j) * u" using assms top by simp
  then have "\<bar>v\<bar> / u \<le> of_int (2 ^ j)" using upos by (simp add: field_simps)
  then have "\<bar>v / u\<bar> \<le> of_int (2 ^ j)" using upos by (simp add: abs_divide)
  then have "\<bar>roundHalfEven (v / u)\<bar> \<le> 2 ^ j" by (rule rhe_bound)
  then have "(of_int \<bar>roundHalfEven (v / u)\<bar> :: rat) \<le> of_int (2 ^ j)" by (simp only: of_int_le_iff)
  then have "(of_int \<bar>roundHalfEven (v / u)\<bar> :: rat) * u \<le> of_int (2 ^ j) * u"
    using upos by (simp only: mult_le_cancel_right_pos)
  moreover have "\<bar>roundFinite v\<bar> = of_int \<bar>roundHalfEven (v / u)\<bar> * u"
    unfolding roundFinite_unfold [OF False e_def] u_def [symmetric] using upos
    by (simp add: abs_mult)
  ultimately show ?thesis using top by simp
qed

lemma roundFinite_near_one:
  assumes "\<bar>d\<bar> \<le> 1 / 2 ^ 54"
  shows "roundFinite (1 + d) = 1"
proof (cases "0 \<le> d")
  case True
  have v: "0 < 1 + d" "2 powi 0 \<le> 1 + d" "1 + d < 2 powi (0 + 1)"
    using True assms by simp_all
  have "\<bar>(1 + d) * 2 ^ 52 - of_int (2 ^ 52)\<bar> < 1 / 2"
    using True assms by (simp add: algebra_simps)
  then have "roundHalfEven ((1 + d) * 2 ^ 52) = 2 ^ 52" by (rule rhe_near)
  then show ?thesis
    using roundFinite_at [OF v] by (simp add: power_int_minus)
next
  case False
  have v: "0 < 1 + d" "2 powi (- 1) \<le> 1 + d" "1 + d < 2 powi (- 1 + 1)"
    using False assms by (simp_all add: power_int_minus)
  have r: "roundHalfEven ((1 + d) * 2 ^ 53) = 2 ^ 53"
  proof (cases "d = - (1 / 2 ^ 54)")
    case True
    have eq: "(1 + d) * 2 ^ 53 = of_int (2 ^ 53) - 1 / 2" by (simp add: True)
    show ?thesis unfolding eq by (rule rhe_tie_below) simp
  next
    case f: False
    then have "- (1 / 2 ^ 54) < d" using assms False by (simp add: abs_le_iff)
    then have "\<bar>(1 + d) * 2 ^ 53 - of_int (2 ^ 53)\<bar> < 1 / 2"
      using False by (simp add: algebra_simps)
    then show ?thesis by (rule rhe_near)
  qed
  show ?thesis
    using roundFinite_at [OF v] r by (simp add: power_int_minus)
qed

lemma roundFinite_error_below_one:
  assumes "1 / 2 \<le> u" and "u < 1"
  shows "\<bar>roundFinite u - u\<bar> \<le> 1 / 2 ^ 54"
proof -
  have v: "0 < u" "2 powi (- 1) \<le> u" "u < 2 powi (- 1 + 1)"
    using assms by (simp_all add: power_int_minus)
  define z where "z = roundHalfEven (u * 2 ^ 53)"
  have r: "roundFinite u = of_int z / 2 ^ 53"
    using roundFinite_at [OF v] by (simp add: power_int_minus z_def)
  define x where "x = of_int z - u * 2 ^ 53"
  have "\<bar>x\<bar> \<le> 1 / 2" unfolding x_def z_def by (rule rhe_error)
  then have a: "\<bar>x\<bar> / 2 ^ 53 \<le> (1 / 2) / 2 ^ 53" by (rule divide_right_mono) simp
  have b: "roundFinite u - u = x / 2 ^ 53"
    by (simp add: r x_def field_simps)
  have c: "\<bar>x / 2 ^ 53\<bar> = \<bar>x\<bar> / 2 ^ 53" by (simp add: abs_divide)
  show ?thesis unfolding b c using a by simp
qed

lemma isDouble_one_minus:
  assumes "isDouble t" and "1 / 2 \<le> t" and "t \<le> 2 ^ 53"
  shows "isDouble (1 - t)"
proof -
  from assms(1) obtain m k where mk: "t = of_int m * 2 powi k" "\<bar>m\<bar> < 2 ^ 53" "- 1074 \<le> k"
    unfolding isDouble_def by blast
  have mpos: "0 < m"
  proof (rule ccontr)
    assume "\<not> 0 < m"
    then have "(of_int m :: rat) \<le> 0" by simp
    then have "of_int m * (2::rat) powi k \<le> 0"
      using two_powi_pos [of k] by (simp add: mult_le_0_iff)
    with assms(2) mk(1) show False by simp
  qed
  show ?thesis
  proof (cases "k \<le> 0")
    case True
    define j where "j = nat (- k)"
    have k: "k = - int j" using True by (simp add: j_def)
    have p: "(2::rat) powi k = 1 / 2 ^ j" by (simp add: k power_int_minus field_simps)
    have t: "t = of_int m / 2 ^ j" by (simp add: mk(1) p)
    have "(2::rat) ^ j \<le> 2 * of_int m" using assms(2) by (simp add: t field_simps)
    also have "\<dots> < 2 * of_int (2 ^ 53)" using mk(2) mpos by simp
    finally have lt: "(2::rat) ^ j < 2 ^ 54" by simp
    have "j < 54"
    proof (rule power_less_imp_less_exp)
      show "1 < (2::rat)" by simp
      show "(2::rat) ^ j < 2 ^ 54" by (fact lt)
    qed
    then have "j \<le> 53" by simp
    then have "(2::int) ^ j \<le> 2 ^ 53" by (rule power_increasing) simp
    moreover have "0 < (2::int) ^ j" by simp
    ultimately have b: "\<bar>2 ^ j - m\<bar> < 2 ^ 53" using mk(2) mpos by linarith
    have "1 - t = of_int (2 ^ j - m) * 2 powi k" by (simp add: t p field_simps)
    from this b mk(3) show ?thesis by (rule isDoubleI)
  next
    case False
    define j where "j = nat k"
    have p: "(2::rat) powi k = 2 ^ j" using False by (simp add: j_def two_powi_nat)
    define T where "T = m * 2 ^ j"
    have t: "t = of_int T" by (simp add: mk(1) p T_def)
    have "1 \<le> T" using mpos by (simp add: T_def) (metis less_1_mult one_le_numeral one_le_power mult.commute int_one_le_iff_zero_less linorder_not_less mult_pos_pos zero_less_numeral zero_less_power)
    moreover have "T \<le> 2 ^ 53"
    proof -
      have "(of_int T :: rat) \<le> of_int (2 ^ 53)" using assms(3) t by simp
      then show ?thesis by (simp only: of_int_le_iff)
    qed
    ultimately have b: "\<bar>1 - T\<bar> < 2 ^ 53" by linarith
    have "1 - t = of_int (1 - T) * 2 powi 0" by (simp add: t)
    from this b show ?thesis by (rule isDoubleI) simp
  qed
qed

lemma double_sum_one:
  assumes "isDouble t" and "0 \<le> t" and "t \<le> 2 ^ 53"
  shows "roundFinite (t + roundFinite (1 - t)) = 1"
proof (cases "1 / 2 \<le> t")
  case True
  with assms have "isDouble (1 - t)" by (simp add: isDouble_one_minus)
  then have "roundFinite (1 - t) = 1 - t" by (rule roundFinite_isDouble)
  then show ?thesis by (simp add: roundFinite_one)
next
  case False
  show ?thesis
  proof (cases "t = 0")
    case True
    then show ?thesis by (simp add: roundFinite_one)
  next
    case f: False
    have "1 / 2 \<le> 1 - t" "1 - t < 1" using False f assms(2) by simp_all
    then have "\<bar>roundFinite (1 - t) - (1 - t)\<bar> \<le> 1 / 2 ^ 54"
      by (rule roundFinite_error_below_one)
    then have "roundFinite (1 + (roundFinite (1 - t) - (1 - t))) = 1"
      by (rule roundFinite_near_one)
    moreover have "1 + (roundFinite (1 - t) - (1 - t)) = t + roundFinite (1 - t)" by simp
    ultimately show ?thesis by simp
  qed
qed


lemma roundFinite_eval:
  assumes "v \<noteq> 0" and "2 powi e \<le> \<bar>v\<bar>" and "\<bar>v\<bar> < 2 powi (e + 1)" and "- 1022 \<le> e"
  shows "roundFinite v = of_int (roundHalfEven (v / 2 powi (e - 52))) * 2 powi (e - 52)"
proof -
  have "0 < \<bar>v\<bar>" using assms(1) by simp
  then have "exponentOf \<bar>v\<bar> = e" using assms(2,3) by (rule exponentOf_unique)
  then have "e = max (exponentOf \<bar>v\<bar>) (- 1022)" using assms(4) by simp
  with assms(1) show ?thesis by (rule roundFinite_unfold)
qed

lemma roundFinite_value:
  assumes "v \<noteq> 0" and "2 powi e \<le> \<bar>v\<bar>" and "\<bar>v\<bar> < 2 powi (e + 1)" and "- 1022 \<le> e"
    and "\<bar>v / 2 powi (e - 52) - of_int z\<bar> < 1 / 2"
  shows "roundFinite v = of_int z * 2 powi (e - 52)"
  using roundFinite_eval [OF assms(1-4)] rhe_near [OF assms(5)] by simp

lemma rhe_tie_above: "even z \<Longrightarrow> roundHalfEven (of_int z + 1 / 2) = z"
proof -
  assume e: "even z"
  have f: "\<lfloor>(of_int z :: rat) + 1 / 2\<rfloor> = z" by (intro floor_unique) auto
  show ?thesis using e by (simp add: roundHalfEven_def Let_def f)
qed

lemma roundFinite_tie:
  assumes "v \<noteq> 0" and "2 powi e \<le> \<bar>v\<bar>" and "\<bar>v\<bar> < 2 powi (e + 1)" and "- 1022 \<le> e"
    and "v / 2 powi (e - 52) = of_int z + 1 / 2" and "even z"
  shows "roundFinite v = of_int z * 2 powi (e - 52)"
  using roundFinite_eval [OF assms(1-4)] rhe_tie_above [OF assms(6)] by (simp add: assms(5))

lemma roundDouble_small:
  assumes "\<bar>v\<bar> \<le> 2 ^ 53"
  shows "roundDouble v = Fin (roundFinite v)"
proof -
  have "\<bar>roundFinite v\<bar> \<le> 2 ^ 53" using assms by (rule roundFinite_abs_bound)
  moreover have "(2::rat) ^ 53 < 2 ^ 1024" by simp
  ultimately have "\<not> 2 ^ 1024 \<le> \<bar>roundFinite v\<bar>" by linarith
  then show ?thesis by (simp only: roundDouble_def Let_def if_False)
qed

lemma roundDouble_Fin: "roundDouble v = Fin r \<Longrightarrow> r = roundFinite v"
  by (simp add: roundDouble_def Let_def split: if_splits)

lemma roundDouble_nat:
  assumes "n < 2 ^ 53"
  shows "roundDouble (of_nat n) = Fin (of_nat n)"
proof -
  have "(of_nat n :: rat) = of_int (int n) * 2 powi 0" by simp
  moreover have "\<bar>int n\<bar> < 2 ^ 53" using assms by simp
  ultimately have "isDouble (of_nat n)" by (rule isDoubleI) simp
  then have r: "roundFinite (of_nat n) = of_nat n" by (rule roundFinite_isDouble)
  have "(of_nat n :: rat) \<le> of_nat (2 ^ 53)" using assms by (simp only: of_nat_le_iff less_imp_le)
  then have "\<bar>of_nat n :: rat\<bar> \<le> 2 ^ 53" by simp
  then show ?thesis using r by (simp add: roundDouble_small)
qed

text \<open>The stored treasury split, when finite, is a non-negative double.\<close>

lemma written_split_double:
  assumes "toDouble (decodedToNumber v / num 1000) = num t"
  shows "isDouble t \<and> 0 \<le> t"
proof -
  obtain n where v: "decodedToNumber v = Number (roundDouble (of_nat n))"
    by (cases v) simp_all
  show ?thesis
  proof (cases "roundDouble (of_nat n)")
    case (Fin x)
    then have x: "x = roundFinite (of_nat n)" by (rule roundDouble_Fin)
    have "0 \<le> x" unfolding x by (rule roundFinite_nonneg) simp
    have "Number (roundDouble (x / 1000)) = num t"
      using assms by (simp add: v Fin divide_jsval_def)
    then have t: "t = roundFinite (x / 1000)" by (simp add: roundDouble_Fin)
    have "0 \<le> t" unfolding t using \<open>0 \<le> x\<close> by (intro roundFinite_nonneg) simp
    then show ?thesis unfolding t by (simp add: isDouble_roundFinite)
  next
    case PInf
    then show ?thesis using assms by (simp add: v divide_jsval_def)
  next
    case NInf
    then show ?thesis using assms by (simp add: v divide_jsval_def)
  next
    case NaN
    then show ?thesis using assms by (simp add: v divide_jsval_def)
  qed
qed

lemma double_split_sum:
  assumes "isDouble t" and "0 \<le> t" and "t \<le> 2 ^ 53"
  shows "toDouble (num t + toDouble (num 1 - num t)) = num 1"
proof -
  have "\<bar>1 - t\<bar> \<le> 2 ^ 53" using assms(2,3) by simp
  then have s: "roundDouble (1 - t) = Fin (roundFinite (1 - t))" by (rule roundDouble_small)
  have one: "roundFinite (t + roundFinite (1 - t)) = 1" using assms by (rule double_sum_one)
  have "roundDouble (t + roundFinite (1 - t)) = Fin 1"
    by (simp add: roundDouble_def Let_def one)
  then show ?thesis
    by (simp add: plus_jsval_def minus_jsval_def minus_jsnum_def s)
qed

lemma split_sum_one:
  assumes "toDouble (decodedToNumber v / num 1000) = num t" and "t \<le> 2 ^ 53"
  shows "toDouble (toDouble (decodedToNumber v / num 1000)
           + toDouble (num 1 - toDouble (decodedToNumber v / num 1000))) = num 1"
  using written_split_double [OF assms(1)] assms(2)
  unfolding assms(1) by (simp only: double_split_sum)

lemma split_sum_one_num:
  assumes "toDouble (decodedToNumber v / num 1000) = num t" and "t \<le> 2 ^ 53"
  shows "toDouble (num t + toDouble (num 1 - num t)) = num 1"
  using split_sum_one [OF assms] unfolding assms(1) .

lemma updateFeeBatch_entry:
  "updateFeeBatch zksync chainId addr res feeBatches k = Some d \<Longrightarrow>
     feeBatches k = Some d \<or>
     (\<forall>t. treasurySplit d = num t \<and> t \<le> 2 ^ 53 \<longrightarrow>
        toDouble (treasurySplit d + stakerSplit d) = num 1)"
  by (auto simp: updateFeeBatch_def Let_def split_sum_one_num split: if_splits option.splits)

lemma updateFeeBatch_written:
  assumes "treasurySplitOf zksync chainId res = Some v" and "truthy (Some v)"
    and "numeratorOf v < 2 ^ 53"
  shows "\<exists>d. updateFeeBatch zksync chainId addr res feeBatches chainId = Some d \<and>
           toDouble (treasurySplit d + stakerSplit d) = num 1"
proof -
  define n where "n = numeratorOf v"
  have v: "decodedToNumber v = num (of_nat n)"
    using assms(3) by (cases v) (simp_all add: n_def roundDouble_nat)
  have "(of_nat n :: rat) \<le> of_nat (2 ^ 53)"
    using assms(3) by (simp only: of_nat_le_iff less_imp_le n_def)
  then have b: "\<bar>of_nat n / 1000 :: rat\<bar> \<le> 2 ^ 53" by simp
  then have "roundDouble (of_nat n / 1000) = Fin (roundFinite (of_nat n / 1000))"
    by (rule roundDouble_small)
  then have ts: "toDouble (decodedToNumber v / num 1000) = num (roundFinite (of_nat n / 1000))"
    by (simp add: v divide_jsval_def)
  have "\<bar>roundFinite (of_nat n / 1000)\<bar> \<le> 2 ^ 53" using b by (rule roundFinite_abs_bound)
  then have "roundFinite (of_nat n / 1000) \<le> 2 ^ 53" by simp
  with ts have "toDouble (toDouble (decodedToNumber v / num 1000)
           + toDouble (num 1 - toDouble (decodedToNumber v / num 1000))) = num 1"
    by (rule split_sum_one)
  then show ?thesis
    using assms(1,2) by (simp add: updateFeeBatch_def Let_def)
qed

lemma updateFeeBatches_entry:
  "updateFeeBatches zksync book treasuryFee feeBatches k = Some d \<Longrightarrow>
     feeBatches k = Some d \<or>
     (\<forall>t. treasurySplit d = num t \<and> t \<le> 2 ^ 53 \<longrightarrow>
        toDouble (treasurySplit d + stakerSplit d) = num 1)"
proof (induction book arbitrary: feeBatches)
  case Nil
  then show ?case by simp
next
  case (Cons e book)
  obtain chainId addr where e: "e = (chainId, addr)" by (cases e)
  from Cons.prems e Cons.IH[of "updateFeeBatch zksync chainId addr (treasuryFee chainId) feeBatches"]
  have "updateFeeBatch zksync chainId addr (treasuryFee chainId) feeBatches k = Some d
        \<or> (\<forall>t. treasurySplit d = num t \<and> t \<le> 2 ^ 53 \<longrightarrow>
              toDouble (treasurySplit d + stakerSplit d) = num 1)"
    by simp
  then show ?case
    using updateFeeBatch_entry by blast
qed

text \<open>The doubles of the two default splits.\<close>

lemma double_014: "roundDouble (7 / 50) = Fin (1261007895663739 / 9007199254740992)"
proof -
  have "roundFinite (7 / 50) = 1261007895663739 / 9007199254740992"
    using roundFinite_value [of "7 / 50" "- 3" 5044031582654956]
    by (simp add: power_int_minus)
  then show ?thesis by (simp add: roundDouble_small)
qed

lemma double_086: "roundDouble (43 / 50) = Fin (7746191359077253 / 9007199254740992)"
proof -
  have "roundFinite (43 / 50) = 7746191359077253 / 9007199254740992"
    using roundFinite_value [of "43 / 50" "- 1" 7746191359077253]
    by (simp add: power_int_minus)
  then show ?thesis by (simp add: roundDouble_small)
qed

lemma double_064: "roundDouble (16 / 25) = Fin (5764607523034235 / 9007199254740992)"
proof -
  have "roundFinite (16 / 25) = 5764607523034235 / 9007199254740992"
    using roundFinite_value [of "16 / 25" "- 1" 5764607523034235]
    by (simp add: power_int_minus)
  then show ?thesis by (simp add: roundDouble_small)
qed

lemma double_036: "roundDouble (9 / 25) = Fin (3242591731706757 / 9007199254740992)"
proof -
  have "roundFinite (9 / 25) = 3242591731706757 / 9007199254740992"
    using roundFinite_value [of "9 / 25" "- 2" 6485183463413514]
    by (simp add: power_int_minus)
  then show ?thesis by (simp add: roundDouble_small)
qed

lemma double_exact:
  "roundDouble (7746191359077253 / 9007199254740992) = Fin (7746191359077253 / 9007199254740992)"
  "roundDouble (3242591731706757 / 9007199254740992) = Fin (3242591731706757 / 9007199254740992)"
proof -
  have "(7746191359077253 / 9007199254740992 :: rat) = of_int 7746191359077253 * 2 powi (- 53)"
    by (simp add: power_int_minus)
  then have "isDouble (7746191359077253 / 9007199254740992)" by (rule isDoubleI) simp_all
  then show "roundDouble (7746191359077253 / 9007199254740992)
      = Fin (7746191359077253 / 9007199254740992)"
    by (simp add: roundDouble_small roundFinite_isDouble)
  have "(3242591731706757 / 9007199254740992 :: rat) = of_int 3242591731706757 * 2 powi (- 53)"
    by (simp add: power_int_minus)
  then have "isDouble (3242591731706757 / 9007199254740992)" by (rule isDoubleI) simp_all
  then show "roundDouble (3242591731706757 / 9007199254740992)
      = Fin (3242591731706757 / 9007199254740992)"
    by (simp add: roundDouble_small roundFinite_isDouble)
qed

lemma default_splits:
  "toDouble (decodedToNumber (AsNumber 140) / num 1000) = toDouble (num (140 / 1000))"
  "toDouble (num 1 - toDouble (decodedToNumber (AsNumber 140) / num 1000))
     = toDouble (num (860 / 1000))"
  "toDouble (decodedToNumber (AsNumber 640) / num 1000) = toDouble (num (640 / 1000))"
  "toDouble (num 1 - toDouble (decodedToNumber (AsNumber 640) / num 1000))
     = toDouble (num (360 / 1000))"
  by (simp_all add: roundDouble_nat [of 140, simplified] roundDouble_nat [of 640, simplified]
      divide_jsval_def minus_jsval_def minus_jsnum_def
      double_014 double_086 double_064 double_036 double_exact)

text \<open>The roundings met for the numerator 10000000000000000001.\<close>

lemma roundDouble_of: "roundFinite v = r \<Longrightarrow> \<bar>r\<bar> < 2 ^ 1024 \<Longrightarrow> roundDouble v = Fin r"
  by (simp add: roundDouble_def Let_def)

lemma big_numerator:
  "roundDouble 10000000000000000001 = Fin 10000000000000000000"
  "roundDouble 10000000000000000 = Fin 10000000000000000"
  "roundDouble (- 9999999999999999) = Fin (- 10000000000000000)"
  "roundDouble 0 = Fin 0"
proof -
  have "roundFinite 10000000000000000001 = 10000000000000000000"
    using roundFinite_value [of 10000000000000000001 63 4882812500000000] by simp
  then show "roundDouble 10000000000000000001 = Fin 10000000000000000000"
    by (rule roundDouble_of) simp
  have "roundFinite 10000000000000000 = 10000000000000000"
    using roundFinite_value [of 10000000000000000 53 5000000000000000] by simp
  then show "roundDouble 10000000000000000 = Fin 10000000000000000"
    by (rule roundDouble_of) simp
  have "roundFinite (- 9999999999999999) = - 10000000000000000"
    using roundFinite_tie [of "- 9999999999999999" 53 "- 5000000000000000"] by simp
  then show "roundDouble (- 9999999999999999) = Fin (- 10000000000000000)"
    by (rule roundDouble_of) simp
  show "roundDouble 0 = Fin 0"
    by (simp add: roundDouble_def roundFinite_def)
qed

section \<open>Legacy generation\<close>

text \<open>
  Claim C1, as amended. For a legacy-generation probe (no aggregate getter, no breakdown
  getter, vault id without \<open>-maxi\<close>) the classifier returns the formula of the first
  condition that holds in the ordered list \<open>legacyShapes\<close>, and no result when none
  holds. The fourth and fifth conditions accept a probe whose component sum is a number
  without comparing it with the max fee. In particular, when both
  \<open>call + strategist + beefy = maxFee\<close> and \<open>call + treasury + rewards = maxFee\<close> hold,
  the result is the one of the first of the two.
\<close>

theorem legacy_first_condition_wins:
  assumes "allFees c = None" and "breakdown c = None" and "\<not> includes_str (id' c) ''-maxi''"
  shows "performanceFeesFromCalls c feeBatch = firstMatch (legacyShapes c feeBatch) (Inr None) \<and>
         (strictEq (callFeeOf c + strategistFeeOf c + beefy c) (maxFeeOf c) \<and>
          strictEq (callFeeOf c + treasury c + rewardsOf c) (maxFeeOf c) \<longrightarrow>
            performanceFeesFromCalls c feeBatch =
              readFeeBatch feeBatch (\<lambda>fb. Some
                \<lparr> total_fee = num (45 / 1000),
                  call_fee = num (45 / 1000) * callFeeOf c / maxFeeOf c,
                  strategist_fee = num (45 / 1000) * strategistFeeOf c / maxFeeOf c,
                  treasury_fee = num (45 / 1000) * treasurySplit fb * beefy c / maxFeeOf c,
                  stakers_fee = num (45 / 1000) * stakerSplit fb * beefy c / maxFeeOf c \<rparr>))"
proof -
  have eq: "performanceFeesFromCalls c feeBatch = firstMatch (legacyShapes c feeBatch) (Inr None)"
    using assms by (simp add: legacy_generation legacy_as_shapes)
  show ?thesis
    unfolding eq by (simp add: legacyShapes_def)
qed

text \<open>
  The probe \<open>bothShapesProbe\<close> satisfies both shapes and not
  \<open>call + strategist + rewards + treasury = maxFee\<close>; its strategist share is the one of
  the first shape.
\<close>

theorem legacy_first_condition_wins_witness:
  "allFees bothShapesProbe = None \<and> breakdown bothShapesProbe = None \<and>
   \<not> includes_str (id' bothShapesProbe) ''-maxi'' \<and>
   strictEq (callFeeOf bothShapesProbe + strategistFeeOf bothShapesProbe + beefy bothShapesProbe)
     (maxFeeOf bothShapesProbe) \<and>
   strictEq (callFeeOf bothShapesProbe + treasury bothShapesProbe + rewardsOf bothShapesProbe)
     (maxFeeOf bothShapesProbe) \<and>
   performanceFeesFromCalls bothShapesProbe (Some historicalSplit) =
     Inr (Some \<lparr> total_fee = num (45 / 1000), call_fee = num (225 / 100000),
                 strategist_fee = num (225 / 100000), treasury_fee = num (567 / 100000),
                 stakers_fee = num (3483 / 100000) \<rparr>)"
proof -
  have a: "allFees bothShapesProbe = None" "breakdown bothShapesProbe = None"
    "\<not> includes_str (id' bothShapesProbe) ''-maxi''"
    by (simp_all add: bothShapesProbe_def emptyProbe_def)
  have b: "strictEq (callFeeOf bothShapesProbe + strategistFeeOf bothShapesProbe
              + beefy bothShapesProbe) (maxFeeOf bothShapesProbe)"
    "strictEq (callFeeOf bothShapesProbe + treasury bothShapesProbe + rewardsOf bothShapesProbe)
       (maxFeeOf bothShapesProbe)"
    by (simp_all add: bothShapesProbe_def emptyProbe_def component_defs nullish_def js_arith)
  from legacy_first_condition_wins [OF a, of "Some historicalSplit", THEN conjunct2] b
  have "performanceFeesFromCalls bothShapesProbe (Some historicalSplit) =
     Inr (Some \<lparr> total_fee = num (45 / 1000), call_fee = num (225 / 100000),
                 strategist_fee = num (225 / 100000), treasury_fee = num (567 / 100000),
                 stakers_fee = num (3483 / 100000) \<rparr>)"
    by (simp add: bothShapesProbe_def emptyProbe_def historicalSplit_def component_defs
        nullish_def readFeeBatch_def js_arith)
  with a b show ?thesis by simp
qed

text \<open>
  The claim as stated fails on \<open>noSumProbe\<close> (call 500, strategist 500, beefy 4000, max
  fee 10000): no component sum equals the max fee, and the probe is classified all the same,
  by the condition that strategist, call and beefy fee add up to a number.
\<close>

theorem legacy_sum_counterexample:
  "legacySumMatches noSumProbe = [False, False, False, False, False, False, False] \<and>
   performanceFeesFromCalls noSumProbe (Some historicalSplit) =
     Inr (Some \<lparr> total_fee = num (45 / 1000), call_fee = num (225 / 100000),
                 strategist_fee = num (225 / 100000), treasury_fee = num (252 / 100000),
                 stakers_fee = num (1548 / 100000) \<rparr>)"
  by (simp add: legacySumMatches_def performanceFeesFromCalls_def legacyFeeMappings_def
      noSumProbe_def emptyProbe_def historicalSplit_def component_defs
      Let_def nullish_def isNaN_def readFeeBatch_def js_arith)

text \<open>
  Claim C3, as amended. The \<open>total\<close> of a legacy classification is one of three
  constants, determined by the shape that matched and never read from the contract: 0.05
  exactly when \<open>fee + call = maxFee\<close> is the shape that matched; 0.01 exactly when the
  vault is \<open>cake-cakev2-eol\<close> and \<open>call + beefy = maxFee\<close> is the shape that matched;
  0.045 in every other case. For every other vault id it is therefore 0.045 or 0.05.
\<close>

theorem legacy_total_constant:
  assumes "allFees c = None" and "breakdown c = None" and "\<not> includes_str (id' c) ''-maxi''"
    and "performanceFeesFromCalls c feeBatch = Inr (Some p)"
  shows "total_fee p \<in> {num (45 / 1000), num (5 / 100), num (1 / 100)} \<and>
         (id' c \<noteq> ''cake-cakev2-eol'' \<longrightarrow> total_fee p \<in> {num (45 / 1000), num (5 / 100)}) \<and>
         (total_fee p = num (5 / 100) \<longleftrightarrow> feeCallShapeMatched c) \<and>
         (total_fee p = num (1 / 100) \<longleftrightarrow>
            callBeefyShapeMatched c \<and> id' c = ''cake-cakev2-eol'') \<and>
         (total_fee p = num (45 / 1000) \<longleftrightarrow>
            \<not> feeCallShapeMatched c \<and>
            \<not> (callBeefyShapeMatched c \<and> id' c = ''cake-cakev2-eol''))"
proof -
  have "firstMatch (legacyShapes c feeBatch) (Inr None) = Inr (Some p)"
    using assms by (simp add: legacy_generation legacy_as_shapes)
  then show ?thesis
    by (cases feeBatch)
       (auto simp: legacyShapes_def readFeeBatch_def feeCallShapeMatched_def
          callBeefyShapeMatched_def split: if_splits)
qed

text \<open>
  The three constants on three probes: \<open>noSumProbe\<close> (0.045, while its four components
  add up to 0.0225, so the total is not their sum), \<open>feeCallProbe\<close> (0.05) and
  \<open>cakeProbe\<close> (0.01).
\<close>

theorem legacy_total_constant_witness:
  "performanceFeesFromCalls noSumProbe (Some historicalSplit) =
     Inr (Some \<lparr> total_fee = num (45 / 1000), call_fee = num (225 / 100000),
                 strategist_fee = num (225 / 100000), treasury_fee = num (252 / 100000),
                 stakers_fee = num (1548 / 100000) \<rparr>) \<and>
   \<not> feeCallShapeMatched noSumProbe \<and> id' noSumProbe \<noteq> ''cake-cakev2-eol'' \<and>
   num (225 / 100000) + num (225 / 100000) + num (252 / 100000) + num (1548 / 100000)
     = num (225 / 10000) \<and>
   performanceFeesFromCalls feeCallProbe (Some historicalSplit) =
     Inr (Some \<lparr> total_fee = num (5 / 100), call_fee = num (25 / 10000),
                 strategist_fee = num 0, treasury_fee = num 0,
                 stakers_fee = num (475 / 10000) \<rparr>) \<and>
   feeCallShapeMatched feeCallProbe \<and>
   performanceFeesFromCalls cakeProbe (Some historicalSplit) =
     Inr (Some \<lparr> total_fee = num (1 / 100), call_fee = num (5 / 10000),
                 strategist_fee = num 0, treasury_fee = num (133 / 100000),
                 stakers_fee = num (817 / 100000) \<rparr>) \<and>
   callBeefyShapeMatched cakeProbe \<and> id' cakeProbe = ''cake-cakev2-eol''"
proof -
  have a1: "allFees noSumProbe = None" "breakdown noSumProbe = None"
    "\<not> includes_str (id' noSumProbe) ''-maxi''"
    by (simp_all add: noSumProbe_def emptyProbe_def)
  have h1: "performanceFeesFromCalls noSumProbe (Some historicalSplit) =
     Inr (Some \<lparr> total_fee = num (45 / 1000), call_fee = num (225 / 100000),
                 strategist_fee = num (225 / 100000), treasury_fee = num (252 / 100000),
                 stakers_fee = num (1548 / 100000) \<rparr>)"
    by (simp add: performanceFeesFromCalls_def legacyFeeMappings_def
        noSumProbe_def emptyProbe_def historicalSplit_def
        Let_def nullish_def isNaN_def readFeeBatch_def js_arith)
  have a2: "allFees feeCallProbe = None" "breakdown feeCallProbe = None"
    "\<not> includes_str (id' feeCallProbe) ''-maxi''"
    by (simp_all add: feeCallProbe_def emptyProbe_def)
  have h2: "performanceFeesFromCalls feeCallProbe (Some historicalSplit) =
     Inr (Some \<lparr> total_fee = num (5 / 100), call_fee = num (25 / 10000),
                 strategist_fee = num 0, treasury_fee = num 0,
                 stakers_fee = num (475 / 10000) \<rparr>)"
    by (simp add: performanceFeesFromCalls_def legacyFeeMappings_def
        feeCallProbe_def emptyProbe_def historicalSplit_def
        Let_def nullish_def isNaN_def readFeeBatch_def js_arith)
  have a3: "allFees cakeProbe = None" "breakdown cakeProbe = None"
    "\<not> includes_str (id' cakeProbe) ''-maxi''"
    by (simp_all add: cakeProbe_def emptyProbe_def)
  have h3: "performanceFeesFromCalls cakeProbe (Some historicalSplit) =
     Inr (Some \<lparr> total_fee = num (1 / 100), call_fee = num (5 / 10000),
                 strategist_fee = num 0, treasury_fee = num (133 / 100000),
                 stakers_fee = num (817 / 100000) \<rparr>)"
    by (simp add: performanceFeesFromCalls_def legacyFeeMappings_def
        cakeProbe_def emptyProbe_def historicalSplit_def
        Let_def nullish_def isNaN_def readFeeBatch_def js_arith)
  have "\<not> feeCallShapeMatched noSumProbe"
    using legacy_total_constant [OF a1 h1] by simp
  moreover have "feeCallShapeMatched feeCallProbe"
    using legacy_total_constant [OF a2 h2] by simp
  moreover have "callBeefyShapeMatched cakeProbe \<and> id' cakeProbe = ''cake-cakev2-eol''"
    using legacy_total_constant [OF a3 h3] by simp
  moreover have "id' noSumProbe \<noteq> ''cake-cakev2-eol''"
    by (simp add: noSumProbe_def emptyProbe_def)
  moreover have "num (225 / 100000) + num (225 / 100000) + num (252 / 100000)
      + num (1548 / 100000) = num (225 / 10000)"
    by (simp add: js_arith)
  ultimately show ?thesis using h1 h2 h3 by simp
qed

text \<open>
  The claim as stated fails on \<open>cakeProbe\<close> (vault \<open>cake-cakev2-eol\<close>, call 500, beefy
  9500, max fee 10000): the total is 0.01.
\<close>

theorem legacy_total_counterexample:
  "performanceFeesFromCalls cakeProbe (Some historicalSplit) =
     Inr (Some \<lparr> total_fee = num (1 / 100), call_fee = num (5 / 10000),
                 strategist_fee = num 0, treasury_fee = num (133 / 100000),
                 stakers_fee = num (817 / 100000) \<rparr>) \<and>
   num (1 / 100) \<noteq> num (45 / 1000) \<and> num (1 / 100) \<noteq> num (5 / 100)"
  by (simp add: performanceFeesFromCalls_def legacyFeeMappings_def cakeProbe_def
      emptyProbe_def historicalSplit_def Let_def nullish_def isNaN_def readFeeBatch_def js_arith)

text \<open>
  Claim C4. The legacy probe with call 500, strategist 0, beefy 4000 and max fee 10000, no
  other accessor responding, under the split 0.14 / 0.86, is classified as total 0.045,
  call 0.00225, strategist 0, treasury \<open>0.045 * 0.14 * 4000 / 10000\<close> and stakers
  \<open>0.045 * 0.86 * 4000 / 10000\<close>.
\<close>

theorem legacy_example:
  assumes "\<not> includes_str vaultId ''-maxi''"
    and "treasurySplit fb = num (14 / 100)" and "stakerSplit fb = num (86 / 100)"
  shows "performanceFeesFromCalls
           ((emptyProbe vaultId strategyAddress)
              \<lparr> strategist := num 0, call := num 500, beefy := num 4000, maxFee := num 10000 \<rparr>)
           (Some fb) =
         Inr (Some \<lparr> total_fee = num (45 / 1000), call_fee = num (225 / 100000),
                     strategist_fee = num 0,
                     treasury_fee = num ((45 / 1000) * (14 / 100) * 4000 / 10000),
                     stakers_fee = num ((45 / 1000) * (86 / 100) * 4000 / 10000) \<rparr>)"
  using assms
  by (simp add: performanceFeesFromCalls_def legacyFeeMappings_def emptyProbe_def Let_def
      nullish_def isNaN_def readFeeBatch_def js_arith)

theorem legacy_example_witness:
  "\<not> includes_str ''moo-vault'' ''-maxi'' \<and>
   treasurySplit historicalSplit = num (14 / 100) \<and>
   stakerSplit historicalSplit = num (86 / 100) \<and>
   performanceFeesFromCalls
     ((emptyProbe ''moo-vault'' ''0x01'')
        \<lparr> strategist := num 0, call := num 500, beefy := num 4000, maxFee := num 10000 \<rparr>)
     (Some historicalSplit) =
   Inr (Some \<lparr> total_fee = num (45 / 1000), call_fee = num (225 / 100000),
               strategist_fee = num 0, treasury_fee = num (252 / 100000),
               stakers_fee = num (1548 / 100000) \<rparr>)"
  using legacy_example [of "''moo-vault''" historicalSplit "''0x01''"]
  by (simp add: historicalSplit_def)

section \<open>Maxi vaults\<close>

text \<open>
  Claim C2, as amended. For a probe with no aggregate getter and no breakdown getter whose
  vault id contains \<open>-maxi\<close>, the lower-cased strategy address selects the hand-coded rule:
  the constant 0.005 for the avax maxi, whatever the other accessors returned; the call fee
  over 1000 for the two contracts of the first list; 0.045 times the call fee over the max
  fee for the four legacy contracts; call fee and rewards over the max fee for the old bifi
  maxi.
\<close>

theorem maxi_allow_list:
  assumes "allFees c = None" and "breakdown c = None" and "includes_str (id' c) ''-maxi''"
  shows
   "(toLowerCase (strategy c) = ''0xca077eec87e2621f5b09afe47c42baf88c6af18c'' \<longrightarrow>
       performanceFeesFromCalls c feeBatch = Inr (Some
         \<lparr> total_fee = num (5 / 1000), call_fee = num (5 / 1000), strategist_fee = num 0,
           treasury_fee = num 0, stakers_fee = num 0 \<rparr>)) \<and>
    (toLowerCase (strategy c) \<in> {''0x436d5127f16fac1f021733dda090b5e6de30b3bb'',
                                  ''0xa9e6e271b27b20f65394914f8784b3b860dbd259''} \<longrightarrow>
       performanceFeesFromCalls c feeBatch = Inr (Some
         \<lparr> total_fee = callFeeOf c / num 1000, call_fee = callFeeOf c / num 1000,
           strategist_fee = num 0, treasury_fee = num 0, stakers_fee = num 0 \<rparr>)) \<and>
    (toLowerCase (strategy c) \<in> {''0x24aaab9da14308baf9d670e2a37369fe8cb5fe36'',
                                  ''0x22b3d90bddc3ad5f2948be3914255c64ebc8c9b3'',
                                  ''0xbcf1e02ac0c45729dc85f290c4a6ab35c4801cb1'',
                                  ''0xb25eb9105549627050aab3a1c909fbd454014bea''} \<longrightarrow>
       performanceFeesFromCalls c feeBatch = Inr (Some
         \<lparr> total_fee = num (45 / 1000) * callFeeOf c / maxFeeOf c,
           call_fee = num (45 / 1000) * callFeeOf c / maxFeeOf c,
           strategist_fee = num 0, treasury_fee = num 0, stakers_fee = num 0 \<rparr>)) \<and>
    (toLowerCase (strategy c) = ''0x87056f5e8dce0fd71605e6e291c6a3b53cbc3818'' \<longrightarrow>
       performanceFeesFromCalls c feeBatch = Inr (Some
         \<lparr> total_fee = (callFeeOf c + rewardsOf c) / maxFeeOf c,
           call_fee = callFeeOf c / maxFeeOf c,
           strategist_fee = num 0, treasury_fee = num 0,
           stakers_fee = rewardsOf c / maxFeeOf c \<rparr>))"
proof -
  have eq: "performanceFeesFromCalls c feeBatch = Inr (Some (performanceForMaxi c))"
    using assms by (simp add: performanceFeesFromCalls_def)
  show ?thesis
    unfolding eq
    by (simp add: performanceForMaxi_def Let_def lower_addresses component_defs js_arith)
qed

theorem maxi_allow_list_witness:
  "allFees avaxMaxiProbe = None \<and> breakdown avaxMaxiProbe = None \<and>
   includes_str (id' avaxMaxiProbe) ''-maxi'' \<and>
   toLowerCase (strategy avaxMaxiProbe) = ''0xca077eec87e2621f5b09afe47c42baf88c6af18c'' \<and>
   performanceFeesFromCalls avaxMaxiProbe (Some historicalSplit) = Inr (Some
     \<lparr> total_fee = num (5 / 1000), call_fee = num (5 / 1000), strategist_fee = num 0,
       treasury_fee = num 0, stakers_fee = num 0 \<rparr>)"
  using maxi_allow_list [of avaxMaxiProbe "Some historicalSplit"]
  by (simp add: avaxMaxiProbe_def emptyProbe_def lower_avax)

text \<open>
  The claim as stated fails on \<open>avaxMaxiAggregateProbe\<close>: the address is the avax maxi's and
  the aggregate getter responded, so the fee is the one of the aggregate getter (total
  0.05), not the constant 0.005.
\<close>

theorem maxi_allow_list_counterexample:
  "toLowerCase (strategy avaxMaxiAggregateProbe) = ''0xca077eec87e2621f5b09afe47c42baf88c6af18c'' \<and>
   includes_str (id' avaxMaxiAggregateProbe) ''-maxi'' \<and>
   performanceFeesFromCalls avaxMaxiAggregateProbe (Some historicalSplit) =
     Inr (Some \<lparr> total_fee = num (5 / 100), call_fee = num (25 / 10000),
                 strategist_fee = num (25 / 10000), treasury_fee = num (63 / 10000),
                 stakers_fee = num (387 / 10000) \<rparr>) \<and>
   num (5 / 100) \<noteq> num (5 / 1000)"
  by (simp add: performanceFeesFromCalls_def performanceFromGetFees_def bnDiv1e9ToNumber_def
      avaxMaxiAggregateProbe_def avaxMaxiProbe_def aggregateResponse_def emptyProbe_def
      historicalSplit_def Let_def readFeeBatch_def js_arith lower_avax)

section \<open>Withdrawal and deposit fee\<close>

text \<open>
  Claim C5. With an aggregate getter the withdrawal fee is its withdraw value over 10000.
  Without one it is 0 when the contract is paused, or when neither withdraw accessor or
  neither max-withdraw accessor responded; otherwise it is the first withdraw accessor that
  responded over the first max-withdraw accessor that responded.
\<close>

theorem withdrawalFee_cases:
  "(\<forall>a. allFees c = Some a \<longrightarrow>
        withdrawalFeeFromCalls c = bnToNumber (withdraw_raw a) / num 10000) \<and>
   (allFees c = None \<and>
      (paused c = Some True \<or>
       (withdraw c = Undefined \<and> withdraw2 c = Undefined) \<or>
       (withdrawMax c = Undefined \<and> withdrawMax2 c = Undefined)) \<longrightarrow>
        withdrawalFeeFromCalls c = num 0) \<and>
   (allFees c = None \<and> paused c \<noteq> Some True \<and>
      \<not> (withdraw c = Undefined \<and> withdraw2 c = Undefined) \<and>
      \<not> (withdrawMax c = Undefined \<and> withdrawMax2 c = Undefined) \<longrightarrow>
        withdrawalFeeFromCalls c =
          nullish (withdraw c) (withdraw2 c) / nullish (withdrawMax c) (withdrawMax2 c))"
  by (auto simp: withdrawalFeeFromCalls_def Let_def)

theorem withdrawalFee_cases_witness:
  "withdrawalFeeFromCalls ((emptyProbe ''vault'' ''0x01'')
      \<lparr> allFees := Some aggregateResponse, withdraw := num 50, withdrawMax := num 10000 \<rparr>)
     = num (1 / 1000) \<and>
   withdrawalFeeFromCalls ((emptyProbe ''vault'' ''0x01'')
      \<lparr> withdraw := num 10, withdrawMax := num 10000, paused := Some True \<rparr>) = num 0 \<and>
   withdrawalFeeFromCalls ((emptyProbe ''vault'' ''0x01'')
      \<lparr> withdraw := num 10, withdraw2 := num 20 \<rparr>) = num 0 \<and>
   withdrawalFeeFromCalls ((emptyProbe ''vault'' ''0x01'')
      \<lparr> withdraw2 := num 10, withdrawMax := num 10000, withdrawMax2 := num 5,
        paused := Some False \<rparr>) = num (1 / 1000)"
  using
    withdrawalFee_cases [of "(emptyProbe ''vault'' ''0x01'')
      \<lparr> allFees := Some aggregateResponse, withdraw := num 50, withdrawMax := num 10000 \<rparr>"]
    withdrawalFee_cases [of "(emptyProbe ''vault'' ''0x01'')
      \<lparr> withdraw := num 10, withdrawMax := num 10000, paused := Some True \<rparr>"]
    withdrawalFee_cases [of "(emptyProbe ''vault'' ''0x01'')
      \<lparr> withdraw := num 10, withdraw2 := num 20 \<rparr>"]
    withdrawalFee_cases [of "(emptyProbe ''vault'' ''0x01'')
      \<lparr> withdraw2 := num 10, withdrawMax := num 10000, withdrawMax2 := num 5,
        paused := Some False \<rparr>"]
  by (simp add: emptyProbe_def aggregateResponse_def bnToNumber_def nullish_def js_arith)

text \<open>
  Claim C6. A breakdown that was produced has a deposit field exactly when the aggregate
  getter responded, and then the field is the aggregate deposit value over 10000; in every
  other case the field is absent.
\<close>

theorem deposit_present_iff_aggregate:
  assumes "mapStrategyCallsToFeeBreakdown c feeBatch now = Inr (Some b)"
  shows "(deposit b \<noteq> None \<longleftrightarrow> allFees c \<noteq> None) \<and>
         (\<forall>a. allFees c = Some a \<longrightarrow>
            deposit b = Some (bnToNumber (deposit_raw a) / num 10000)) \<and>
         (allFees c = None \<longrightarrow> deposit b = None)"
  using assms
  by (auto simp: mapStrategyCallsToFeeBreakdown_def depositFeeFromCalls_def Let_def
      divide_jsval_def split: sum.splits option.splits if_splits)

theorem deposit_present_iff_aggregate_witness:
  "mapStrategyCallsToFeeBreakdown
     ((emptyProbe ''vault'' ''0x01'') \<lparr> allFees := Some aggregateResponse \<rparr>)
     (Some historicalSplit) 1700000000 = Inr (Some (aggregateBreakdown 1700000000)) \<and>
   deposit (aggregateBreakdown 1700000000) = Some (num (1 / 100)) \<and>
   mapStrategyCallsToFeeBreakdown noSumProbe (Some historicalSplit) 1700000000 =
     Inr (Some
       \<lparr> performance =
           \<lparr> total_fee = num (45 / 1000), call_fee = num (225 / 100000),
             strategist_fee = num (225 / 100000), treasury_fee = num (252 / 100000),
             stakers_fee = num (1548 / 100000) \<rparr>,
         withdraw_fee = num 0, deposit = None, lastUpdated = 1700000000 \<rparr>)"
proof -
  have h1: "mapStrategyCallsToFeeBreakdown
     ((emptyProbe ''vault'' ''0x01'') \<lparr> allFees := Some aggregateResponse \<rparr>)
     (Some historicalSplit) 1700000000 = Inr (Some (aggregateBreakdown 1700000000))"
    by (simp add: mapStrategyCallsToFeeBreakdown_def withdrawalFeeFromCalls_def
        depositFeeFromCalls_def performanceFeesFromCalls_def performanceFromGetFees_def
        bnDiv1e9ToNumber_def bnToNumber_def aggregateBreakdown_def aggregateResponse_def
        emptyProbe_def historicalSplit_def Let_def readFeeBatch_def js_arith)
  have h2: "mapStrategyCallsToFeeBreakdown noSumProbe (Some historicalSplit) 1700000000 =
     Inr (Some
       \<lparr> performance =
           \<lparr> total_fee = num (45 / 1000), call_fee = num (225 / 100000),
             strategist_fee = num (225 / 100000), treasury_fee = num (252 / 100000),
             stakers_fee = num (1548 / 100000) \<rparr>,
         withdraw_fee = num 0, deposit = None, lastUpdated = 1700000000 \<rparr>)"
    by (simp add: mapStrategyCallsToFeeBreakdown_def withdrawalFeeFromCalls_def
        depositFeeFromCalls_def performanceFeesFromCalls_def legacyFeeMappings_def
        noSumProbe_def emptyProbe_def historicalSplit_def Let_def nullish_def isNaN_def
        readFeeBatch_def js_arith)
  show ?thesis
    using deposit_present_iff_aggregate [OF h1] deposit_present_iff_aggregate [OF h2] h1 h2
    by (simp add: aggregateResponse_def bnToNumber_def js_arith)
qed

text \<open>
  Claim C10. The withdrawal fee is always a number, never \<^verbatim>\<open>undefined\<close>; so a
  classification that returns no breakdown does so exactly when the performance fee
  derivation returned none.
\<close>

theorem withdrawFee_defined:
  "withdrawalFeeFromCalls c \<noteq> Undefined \<and>
   (\<exists>n. withdrawalFeeFromCalls c = Number n) \<and>
   (mapStrategyCallsToFeeBreakdown c feeBatch now = Inr None
      \<longleftrightarrow> performanceFeesFromCalls c feeBatch = Inr None)"
proof -
  obtain n where n: "withdrawalFeeFromCalls c = Number n"
    using withdrawalFee_is_number by blast
  then show ?thesis
    by (auto simp: mapStrategyCallsToFeeBreakdown_def Let_def split: sum.splits option.splits)
qed

theorem withdrawFee_defined_witness:
  "withdrawalFeeFromCalls (emptyProbe ''vault'' ''0x01'') = num 0 \<and>
   performanceFeesFromCalls (emptyProbe ''vault'' ''0x01'') (Some historicalSplit) = Inr None \<and>
   mapStrategyCallsToFeeBreakdown (emptyProbe ''vault'' ''0x01'') (Some historicalSplit) 0
     = Inr None"
  using withdrawFee_defined [of "emptyProbe ''vault'' ''0x01''" "Some historicalSplit" 0]
  by (simp add: withdrawalFeeFromCalls_def performanceFeesFromCalls_def legacyFeeMappings_def
      emptyProbe_def Let_def nullish_def isNaN_def js_arith)

section \<open>Reading the cache\<close>

text \<open>
  For a vault id that is not the name of an inherited member, the read returns 0.095 when
  the cache has no entry, and the total of the cached performance fee when it has one; an
  own entry hides an inherited member of the same name.
\<close>

lemma total_performance_fee_cases:
  "(vaultFees vaultId = None \<and> vaultId \<notin> set objectPrototypeNames \<longrightarrow>
      getTotalPerformanceFeeForVault vaultFees vaultId = Inr (num (95 / 1000))) \<and>
   (vaultFees vaultId = None \<and> vaultId \<in> set objectPrototypeNames \<longrightarrow>
      getTotalPerformanceFeeForVault vaultFees vaultId = Inl TypeError) \<and>
   (\<forall>b. vaultFees vaultId = Some b \<longrightarrow>
      getTotalPerformanceFeeForVault vaultFees vaultId = Inr (total_fee (performance b)))"
  by (simp add: getTotalPerformanceFeeForVault_def getProperty_def)

text \<open>
  Claim C9. The claim asks for 0.095 for every vault id without an entry in the cache. On
  the empty cache the read of \<open>unknown\<close> returns 0.095, but the read of \<open>constructor\<close>
  throws a TypeError: the name has no entry, yet the function every object inherits under
  it is truthy and passes the guard.
\<close>

theorem missing_vault_inherited_name:
  "getTotalPerformanceFeeForVault Map.empty ''unknown'' = Inr (num (95 / 1000)) \<and>
   getTotalPerformanceFeeForVault Map.empty ''constructor'' = Inl TypeError \<and>
   getTotalPerformanceFeeForVault [''vault'' \<mapsto> aggregateBreakdown 0] ''vault''
     = Inr (num (5 / 100))"
  by (simp add: getTotalPerformanceFeeForVault_def getProperty_def objectPrototypeNames_def
      aggregateBreakdown_def)

section \<open>Fee batch registry\<close>

text \<open>
  Claim C7, as amended. Every record the registry update writes whose treasury split is
  at most \<open>2^53\<close> has \<open>treasurySplit + stakerSplit = 1\<close> exactly, the sum taken in
  doubles. This covers every numerator below \<open>2^53\<close>, read or defaulted, and hence every
  entry of the registry after the update that was not already there before it and whose
  treasury split is at most \<open>2^53\<close>.
\<close>

theorem stored_splits_sum_to_one:
  "(treasurySplitOf zksync chainId res = Some v \<and> truthy (Some v) \<and> numeratorOf v < 2 ^ 53 \<longrightarrow>
      (\<exists>d. updateFeeBatch zksync chainId addr res feeBatches chainId = Some d \<and>
           toDouble (treasurySplit d + stakerSplit d) = num 1)) \<and>
   (\<forall>k d. updateFeeBatches zksync book treasuryFee feeBatches k = Some d \<longrightarrow>
      feeBatches k = Some d \<or>
      (\<forall>t. treasurySplit d = num t \<and> t \<le> 2 ^ 53 \<longrightarrow>
         toDouble (treasurySplit d + stakerSplit d) = num 1))"
  using updateFeeBatch_written updateFeeBatches_entry by blast

theorem stored_splits_sum_to_one_witness:
  "treasurySplitOf 324 56 (Returned (AsString 140)) = Some (AsString 140) \<and>
   truthy (Some (AsString 140)) \<and> numeratorOf (AsString 140) < 2 ^ 53 \<and>
   updateFeeBatches 324 [(56, ''0xfeeBatch'')] revertingCall Map.empty 56 =
     Some \<lparr> address = ''0xfeeBatch'', treasurySplit = toDouble (num (140 / 1000)),
            stakerSplit = toDouble (num (860 / 1000)) \<rparr> \<and>
   toDouble (num (140 / 1000)) = num (1261007895663739 / 9007199254740992) \<and>
   toDouble (toDouble (num (140 / 1000)) + toDouble (num (860 / 1000))) = num 1"
proof -
  have h: "updateFeeBatches 324 [(56, ''0xfeeBatch'')] revertingCall Map.empty 56 =
     Some \<lparr> address = ''0xfeeBatch'', treasurySplit = toDouble (num (140 / 1000)),
            stakerSplit = toDouble (num (860 / 1000)) \<rparr>"
    using default_splits(1,2)
    by (simp add: revertingCall_def updateFeeBatch_def treasurySplitOf_def Let_def)
  have ts: "toDouble (num (140 / 1000)) = num (1261007895663739 / 9007199254740992)"
    by (simp add: double_014)
  have a: "treasurySplitOf 324 56 (Returned (AsString 140)) = Some (AsString 140)"
    "truthy (Some (AsString 140))" "numeratorOf (AsString 140) < 2 ^ 53"
    by (simp_all add: treasurySplitOf_def)
  note inst = stored_splits_sum_to_one [of 324 56 "Returned (AsString 140)" "AsString 140"
      "''0xfeeBatch''" Map.empty "[(56, ''0xfeeBatch'')]" revertingCall]
  from inst a have "\<exists>d. updateFeeBatch 324 56 ''0xfeeBatch'' (Returned (AsString 140))
      Map.empty 56 = Some d \<and> toDouble (treasurySplit d + stakerSplit d) = num 1"
    by blast
  moreover from inst h have "\<forall>t. toDouble (num (140 / 1000)) = num t \<and> t \<le> 2 ^ 53 \<longrightarrow>
      toDouble (toDouble (num (140 / 1000)) + toDouble (num (860 / 1000))) = num 1"
    by fastforce
  then have "toDouble (toDouble (num (140 / 1000)) + toDouble (num (860 / 1000))) = num 1"
    using ts by simp
  ultimately show ?thesis using a h ts by simp
qed

text \<open>
  The claim as stated fails for the numerator 10000000000000000001: the stored pair is
  \<open>1e16\<close> and \<open>-1e16\<close>, because \<open>1 - 1e16\<close> is not a double, and the pair adds up to 0.
\<close>

theorem stored_splits_counterexample:
  "updateFeeBatch 324 56 ''0xfeeBatch'' (Returned (AsString 10000000000000000001)) Map.empty 56 =
     Some \<lparr> address = ''0xfeeBatch'', treasurySplit = num 10000000000000000,
            stakerSplit = num (- 10000000000000000) \<rparr> \<and>
   toDouble (num 10000000000000000 + num (- 10000000000000000)) = num 0 \<and>
   num 0 \<noteq> num 1"
  by (simp add: updateFeeBatch_def treasurySplitOf_def Let_def big_numerator
      plus_jsval_def minus_jsval_def divide_jsval_def minus_jsnum_def)

text \<open>
  Claim C8. When the call of the treasury fee accessor throws: a message that contains
  \<open>revert\<close> or \<open>correct ABI\<close> sets the split of the chain from the numerator 140, that is
  to the doubles 0.14 and 0.86; failing that, a message that contains
  \<open>cannot estimate gas\<close> on the zksync chain sets it from the numerator 640, that is to the
  doubles 0.64 and 0.36; in every other case the registry is left as it was.
\<close>

theorem treasuryFee_failure_cases:
  "(includes_str message ''revert'' \<or> includes_str message ''correct ABI'' \<longrightarrow>
      updateFeeBatch zksync chainId addr (Threw message) feeBatches =
        feeBatches(chainId \<mapsto>
          \<lparr> address = addr, treasurySplit = toDouble (num (140 / 1000)),
            stakerSplit = toDouble (num (860 / 1000)) \<rparr>)) \<and>
   (\<not> (includes_str message ''revert'' \<or> includes_str message ''correct ABI'') \<and>
    chainId = zksync \<and> includes_str message ''cannot estimate gas'' \<longrightarrow>
      updateFeeBatch zksync chainId addr (Threw message) feeBatches =
        feeBatches(chainId \<mapsto>
          \<lparr> address = addr, treasurySplit = toDouble (num (640 / 1000)),
            stakerSplit = toDouble (num (360 / 1000)) \<rparr>)) \<and>
   (\<not> (includes_str message ''revert'' \<or> includes_str message ''correct ABI'') \<and>
    \<not> (chainId = zksync \<and> includes_str message ''cannot estimate gas'') \<longrightarrow>
      updateFeeBatch zksync chainId addr (Threw message) feeBatches = feeBatches)"
  using default_splits
  by (auto simp: updateFeeBatch_def treasurySplitOf_def Let_def)

theorem treasuryFee_failure_cases_witness:
  "updateFeeBatch 324 56 ''0xfeeBatch'' (Threw ''execution reverted'') Map.empty =
     [56 \<mapsto> \<lparr> address = ''0xfeeBatch'', treasurySplit = toDouble (num (140 / 1000)),
              stakerSplit = toDouble (num (860 / 1000)) \<rparr>] \<and>
   updateFeeBatch 324 324 ''0xfeeBatch'' (Threw ''cannot estimate gas'') Map.empty =
     [324 \<mapsto> \<lparr> address = ''0xfeeBatch'', treasurySplit = toDouble (num (640 / 1000)),
               stakerSplit = toDouble (num (360 / 1000)) \<rparr>] \<and>
   updateFeeBatch 324 56 ''0xfeeBatch'' (Threw ''cannot estimate gas'') [56 \<mapsto> historicalSplit] =
     [56 \<mapsto> historicalSplit] \<and>
   updateFeeBatch 324 324 ''0xfeeBatch'' (Threw ''connection timed out'') [324 \<mapsto> historicalSplit] =
     [324 \<mapsto> historicalSplit]"
  using
    treasuryFee_failure_cases [of "''execution reverted''" 324 56 "''0xfeeBatch''" Map.empty]
    treasuryFee_failure_cases [of "''cannot estimate gas''" 324 324 "''0xfeeBatch''" Map.empty]
    treasuryFee_failure_cases [of "''cannot estimate gas''" 324 56 "''0xfeeBatch''"
      "[56 \<mapsto> historicalSplit]"]
    treasuryFee_failure_cases [of "''connection timed out''" 324 324 "''0xfeeBatch''"
      "[324 \<mapsto> historicalSplit]"]
  by simp

end
